theory Spec2Isabelle
  imports Main
begin

section \<open>The refactor command of src/commands/refactor.ts\<close>

text \<open>
  The command handler \<open>performRefactor\<close> talks to three collaborators: the analysis server
  (\<open>analyzer.editGetRefactoring\<close>), the editor window (\<open>vs.window.showErrorMessage\<close>,
  \<open>showWarningMessage\<close>, \<open>showInputBox\<close>) and the command that applies a source change.
  The model threads a trace of the calls made to them through every function, in the order
  the code makes them; what a collaborator answers is read from an environment record.
  Every call is taken to return: a request the server rejects and a failure of the apply
  command are outside the model. An exception that the code of this file raises itself is
  a value of type \<open>error\<close>.
\<close>

subsection \<open>Data\<close>

text \<open>
  \<open>as.RefactoringKind\<close> is a union of tags declared in analysis_server_types; the code
  names one of them, \<open>EXTRACT_METHOD\<close>. Every other tag is \<open>OTHER_KIND\<close> with its name.
\<close>

datatype refactoring_kind = EXTRACT_METHOD | OTHER_KIND string

text \<open>A position is a line and a character; a \<open>vs.Range\<close> has a start and an end.\<close>

type_synonym position = "nat \<times> nat"

record vs_range =
  range_start :: position
  range_end :: position

text \<open>
  A problem carries its severity as the string the server sends; the code compares it with
  the literals "FATAL", "ERROR" and "WARNING".
\<close>

record problem =
  severity :: string
  message :: string

text \<open>
  The feedback and the options of the Extract Method refactoring. The code tests
  \<open>feedback.names\<close> for being present before it reads its length, so the field is optional.
  The method parameters (type \<open>'p\<close>) and the source change (type \<open>'c\<close>) are passed on
  unread. The feedback's fields \<open>parameters\<close> and \<open>returnType\<close> carry the prefix
  \<open>fb_\<close>, the options having fields of the same names.
\<close>

record 'p extractMethodFeedback =
  names :: "string list option"
  fb_parameters :: "'p list"
  fb_returnType :: string

record 'p extractMethodOptions =
  createGetter :: bool
  extractAll :: bool
  name :: string
  parameters :: "'p list"
  returnType :: string

record ('p, 'c) response =
  initialProblems :: "problem list"
  optionsProblems :: "problem list"
  finalProblems :: "problem list"
  feedback :: "'p extractMethodFeedback option"
  change :: "'c option"

text \<open>
  The argument of \<open>analyzer.editGetRefactoring\<close>. Its fields \<open>file\<close> and \<open>length\<close> are
  \<open>req_file\<close> and \<open>req_length\<close> here.
\<close>

record 'p request =
  req_file :: string
  kind :: refactoring_kind
  req_length :: int
  offset :: int
  options :: "'p extractMethodOptions option"
  validateOnly :: bool

text \<open>
  The document is a live object of the editor: its version may change whenever the command
  waits. \<open>version doc k\<close> is the version the getter returns once the command has made
  \<open>k\<close> calls to its collaborators (the length of the trace at the moment of the read).
  \<open>isClosed\<close> is read once, on entry.
\<close>

record document =
  fileName :: string
  isClosed :: bool
  version :: "nat \<Rightarrow> int"
  offsetAt :: "position \<Rightarrow> int"

text \<open>The argument of \<open>showInputBox\<close>; its field \<open>value\<close> is \<open>value_opt\<close> here.\<close>

record inputBoxOptions =
  prompt :: string
  value_opt :: "string option"

text \<open>
  \<open>showErrorMessage\<close> and \<open>showWarningMessage\<close> differ in the level only. A call
  \<open>ShowMessage l m items\<close> shows the message \<open>m\<close> with the items to pick; the calls whose
  result the code ignores have no items.
\<close>

datatype level = ErrorMessage | WarningMessage

datatype ('p, 'c) event =
    EditGetRefactoring "'p request"
  | ShowMessage level string "string list"
  | ShowInputBox inputBoxOptions
  | ApplySourceChange document "'c option"

text \<open>
  What the collaborators answer: the server's response to a request, the text entered in
  an input box (\<open>None\<close> when it is dismissed) and the item picked in a message
  (\<open>None\<close> when it is dismissed).
\<close>

record ('p, 'c) env =
  editGetRefactoring :: "'p request \<Rightarrow> ('p, 'c) response"
  showInputBox :: "inputBoxOptions \<Rightarrow> string option"
  showMessage :: "level \<Rightarrow> string \<Rightarrow> string list \<Rightarrow> string option"

datatype error = TypeError

type_synonym ('p, 'c) trace = "('p, 'c) event list"

type_synonym ('p, 'c) resolver =
  "('p, 'c) env \<Rightarrow> 'p extractMethodFeedback option \<Rightarrow> ('p, 'c) trace
     \<Rightarrow> (error + 'p extractMethodOptions option) \<times> ('p, 'c) trace"

subsection \<open>Constants and helpers\<close>

definition REFACTOR_FAILED_DOC_MODIFIED :: string where
  "REFACTOR_FAILED_DOC_MODIFIED =
     ''This refactor cannot be applied because the document has changed.''"

definition REFACTOR_ANYWAY :: string where
  "REFACTOR_ANYWAY = ''Refactor Anyway''"

text \<open>\<open>Array.prototype.join\<close> on an array of strings.\<close>

fun join :: "string \<Rightarrow> string list \<Rightarrow> string" where
  "join sep [] = []"
| "join sep [x] = x"
| "join sep (x # y # ys) = x @ sep @ join sep (y # ys)"

text \<open>
  Modelled from the spec: \<open>unique\<close> of ../utils, which is not among the sources. Items
  that are equal are kept once; the model keeps the first occurrence of each.
\<close>

fun unique :: "'a list \<Rightarrow> 'a list" where
  "unique [] = []"
| "unique (x # xs) = x # unique (filter (\<lambda>y. y \<noteq> x) xs)"

subsection \<open>The options resolvers\<close>

text \<open>
  \<open>getExtractMethodArgs\<close> reads \<open>feedback.names\<close> first, which raises a TypeError when
  the response carried no feedback. \<open>!name\<close> holds for \<open>undefined\<close> and for the empty
  string; in both cases the function returns \<open>undefined\<close>.
\<close>

definition getExtractMethodArgs :: "('p, 'c) resolver" where
  "getExtractMethodArgs env f t =
     (case f of
        None \<Rightarrow> (Inl TypeError, t)
      | Some fb \<Rightarrow>
          let suggestedName = (case names fb of
                                 None \<Rightarrow> None
                               | Some [] \<Rightarrow> None
                               | Some (n # ns) \<Rightarrow> Some n);
              box = \<lparr>prompt = ''Enter a name for the method'', value_opt = suggestedName\<rparr>;
              t1 = t @ [ShowInputBox box]
          in (case showInputBox env box of
                None \<Rightarrow> (Inr None, t1)
              | Some nm \<Rightarrow>
                  if nm = [] then (Inr None, t1)
                  else (Inr (Some \<lparr>createGetter = False, extractAll = False, name = nm,
                                   parameters = fb_parameters fb,
                                   returnType = fb_returnType fb\<rparr>), t1)))"

text \<open>The table \<open>refactorOptions\<close>: a kind that is not a key of it has no resolver.\<close>

fun refactorOptions :: "refactoring_kind \<Rightarrow> ('p, 'c) resolver option" where
  "refactorOptions EXTRACT_METHOD = Some getExtractMethodArgs"
| "refactorOptions (OTHER_KIND k) = None"

subsection \<open>The command\<close>

text \<open>
  \<open>getRefactor\<close> builds the request and sends it. \<open>shouldAbortRefactor\<close> and
  \<open>shouldApplyEdits\<close> follow the code statement by statement; the version of the document
  is read in \<open>shouldApplyEdits\<close> after the prompt, if there was one, and only when
  \<open>applyEdits\<close> is true. In \<open>performRefactor\<close> the lookup
  \<open>refactorOptions[refactorKind]\<close> gives \<open>undefined\<close> for a kind without resolver, and
  calling it raises a TypeError.
\<close>

definition getRefactor_request ::
  "document \<Rightarrow> refactoring_kind \<Rightarrow> vs_range \<Rightarrow> bool \<Rightarrow> 'p extractMethodOptions option
     \<Rightarrow> 'p request" where
  "getRefactor_request doc refactorKind rng vOnly opts =
     \<lparr>req_file = fileName doc,
      kind = refactorKind,
      req_length = offsetAt doc (range_end rng) - offsetAt doc (range_start rng),
      offset = offsetAt doc (range_start rng),
      options = opts,
      validateOnly = vOnly\<rparr>"

definition getRefactor ::
  "('p, 'c) env \<Rightarrow> document \<Rightarrow> refactoring_kind \<Rightarrow> vs_range \<Rightarrow> bool
     \<Rightarrow> 'p extractMethodOptions option \<Rightarrow> ('p, 'c) trace
     \<Rightarrow> ('p, 'c) response \<times> ('p, 'c) trace" where
  "getRefactor env doc refactorKind rng vOnly opts t =
     (let req = getRefactor_request doc refactorKind rng vOnly opts
      in (editGetRefactoring env req, t @ [EditGetRefactoring req]))"

definition allProblems :: "('p, 'c) response \<Rightarrow> problem list" where
  "allProblems r = initialProblems r @ optionsProblems r @ finalProblems r"

definition shouldAbortRefactor ::
  "('p, 'c) response \<Rightarrow> ('p, 'c) trace \<Rightarrow> bool \<times> ('p, 'c) trace" where
  "shouldAbortRefactor validationResult t =
     (let validationProblems =
            filter (\<lambda>e. severity e = ''FATAL'')
              (initialProblems validationResult @ optionsProblems validationResult
                 @ finalProblems validationResult)
      in case validationProblems of
           [] \<Rightarrow> (False, t)
         | p # ps \<Rightarrow> (True, t @ [ShowMessage ErrorMessage (message p) []]))"

definition shouldApplyEdits ::
  "('p, 'c) env \<Rightarrow> ('p, 'c) response \<Rightarrow> document \<Rightarrow> int \<Rightarrow> ('p, 'c) trace
     \<Rightarrow> bool \<times> ('p, 'c) trace" where
  "shouldApplyEdits env editResult doc originalDocumentVersion t =
     (let allPs = initialProblems editResult @ optionsProblems editResult
                    @ finalProblems editResult;
          editFatals = filter (\<lambda>e. severity e = ''FATAL'') allPs;
          editWarnings =
            filter (\<lambda>e. severity e = ''ERROR'' \<or> severity e = ''WARNING'') allPs;
          hasErrors = (find (\<lambda>e. severity e = ''ERROR'') allPs \<noteq> None)
      in if editFatals \<noteq> [] then
           (False, t @ [ShowMessage ErrorMessage
                          (join ''\<newline>\<newline>'' (unique (map message editFatals))
                             @ ''\<newline>\<newline>Your refactor was not applied.'') []])
         else if change editResult = None then (False, t)
         else
           let (applyEdits, t1) =
                 (if editWarnings \<noteq> [] then
                    let lvl = (if hasErrors then ErrorMessage else WarningMessage);
                        msg = join ''\<newline>\<newline>'' (unique (map message editWarnings))
                    in (showMessage env lvl msg [REFACTOR_ANYWAY] = Some REFACTOR_ANYWAY,
                        t @ [ShowMessage lvl msg [REFACTOR_ANYWAY]])
                  else (True, t))
           in if applyEdits \<and> version doc (length t1) \<noteq> originalDocumentVersion then
                (False, t1 @ [ShowMessage ErrorMessage REFACTOR_FAILED_DOC_MODIFIED []])
              else (applyEdits, t1))"

definition performRefactor ::
  "('p, 'c) env \<Rightarrow> document option \<Rightarrow> vs_range \<Rightarrow> refactoring_kind
     \<Rightarrow> (error + unit) \<times> ('p, 'c) trace" where
  "performRefactor env document rng refactorKind =
     (case document of
        None \<Rightarrow> (Inr (), [])
      | Some doc \<Rightarrow>
          if isClosed doc then (Inr (), [])
          else
            let originalDocumentVersion = version doc 0;
                (validationResult, t1) = getRefactor env doc refactorKind rng True None [];
                (abort, t2) = shouldAbortRefactor validationResult t1
            in if abort then (Inr (), t2)
               else
                 (case refactorOptions refactorKind of
                    None \<Rightarrow> (Inl TypeError, t2)
                  | Some resolver \<Rightarrow>
                      (case resolver env (feedback validationResult) t2 of
                         (Inl e, t3) \<Rightarrow> (Inl e, t3)
                       | (Inr None, t3) \<Rightarrow> (Inr (), t3)
                       | (Inr (Some opts), t3) \<Rightarrow>
                           let (editResult, t4) =
                                 getRefactor env doc refactorKind rng False (Some opts) t3;
                               (applyEdits, t5) =
                                 shouldApplyEdits env editResult doc originalDocumentVersion t4
                           in if applyEdits then
                                (Inr (), t5 @ [ApplySourceChange doc (change editResult)])
                              else (Inr (), t5))))"

subsection \<open>Reading an invocation\<close>

text \<open>
  The two responses of an invocation, under the names \<open>performRefactor\<close> gives them, and
  the calls of \<open>_dart.applySourceChange\<close> in a trace.
\<close>

definition validationResult ::
  "('p, 'c) env \<Rightarrow> document \<Rightarrow> refactoring_kind \<Rightarrow> vs_range \<Rightarrow> ('p, 'c) response" where
  "validationResult env doc k rng =
     editGetRefactoring env (getRefactor_request doc k rng True None)"

definition editResult ::
  "('p, 'c) env \<Rightarrow> document \<Rightarrow> refactoring_kind \<Rightarrow> vs_range \<Rightarrow> 'p extractMethodOptions
     \<Rightarrow> ('p, 'c) response" where
  "editResult env doc k rng opts =
     editGetRefactoring env (getRefactor_request doc k rng False (Some opts))"

fun applyCalls :: "('p, 'c) trace \<Rightarrow> (document \<times> 'c option) list" where
  "applyCalls [] = []"
| "applyCalls (ApplySourceChange d c # es) = (d, c) # applyCalls es"
| "applyCalls (e # es) = applyCalls es"

subsection \<open>Sample inputs\<close>

definition sample_document :: "(nat \<Rightarrow> int) \<Rightarrow> document" where
  "sample_document v =
     \<lparr>fileName = ''lib/main.dart'', isClosed = False, version = v,
      offsetAt = (\<lambda>(l, c). int (80 * l + c))\<rparr>"

text \<open>A document that nobody edits, and one that is edited after the second call.\<close>

definition steady_version :: "nat \<Rightarrow> int" where
  "steady_version k = 1"

definition edited_version :: "nat \<Rightarrow> int" where
  "edited_version k = (if k < 2 then 1 else 2)"

definition sample_range :: vs_range where
  "sample_range = \<lparr>range_start = (3, 4), range_end = (5, 1)\<rparr>"

definition sample_feedback :: "string extractMethodFeedback" where
  "sample_feedback =
     \<lparr>names = Some [''extracted''], fb_parameters = [], fb_returnType = ''void''\<rparr>"

definition sample_response ::
  "problem list \<Rightarrow> problem list \<Rightarrow> problem list \<Rightarrow> string option
     \<Rightarrow> (string, string) response" where
  "sample_response ini opt fin c =
     \<lparr>initialProblems = ini, optionsProblems = opt, finalProblems = fin,
      feedback = Some sample_feedback, change = c\<rparr>"

text \<open>
  An environment that answers the validation request with \<open>v\<close> and the edit request with
  \<open>e\<close>, where the user enters \<open>nm\<close> in the input box and picks \<open>pick\<close> in a message.
\<close>

definition sample_env ::
  "(string, string) response \<Rightarrow> (string, string) response \<Rightarrow> string option
     \<Rightarrow> string option \<Rightarrow> (string, string) env" where
  "sample_env v e nm pick =
     \<lparr>editGetRefactoring = (\<lambda>r. if validateOnly r then v else e),
      showInputBox = (\<lambda>b. nm),
      showMessage = (\<lambda>l m items. pick)\<rparr>"

definition sample_options :: "string extractMethodOptions" where
  "sample_options =
     \<lparr>createGetter = False, extractAll = False, name = ''computeTotal'',
      parameters = [], returnType = ''void''\<rparr>"

section \<open>Auxiliary facts\<close>

lemma applyCalls_append: "applyCalls (xs @ ys) = applyCalls xs @ applyCalls ys"
  by (induction xs rule: applyCalls.induct) simp_all

lemma unique_set: "set (unique xs) = set xs"
proof (induction xs rule: unique.induct)
  case 1
  show ?case by simp
next
  case (2 x xs)
  then show ?case by auto
qed

lemma unique_distinct: "distinct (unique xs)"
proof (induction xs rule: unique.induct)
  case 1
  show ?case by simp
next
  case (2 x xs)
  then show ?case by (simp add: unique_set)
qed

lemma filter_find_Some:
  "find P xs = Some p \<Longrightarrow> \<exists>ps. filter P xs = p # ps"
  by (induction xs) (auto split: if_splits)

lemma filter_empty_iff: "(filter P xs = []) = (\<forall>x\<in>set xs. \<not> P x)"
  by (induction xs) auto

lemma shouldAbortRefactor_fatal:
  assumes "find (\<lambda>e. severity e = ''FATAL'') (allProblems r) = Some p"
  shows "shouldAbortRefactor r t = (True, t @ [ShowMessage ErrorMessage (message p) []])"
proof -
  from filter_find_Some [OF assms] obtain ps
    where "filter (\<lambda>e. severity e = ''FATAL'') (allProblems r) = p # ps" by blast
  then show ?thesis
    by (simp add: shouldAbortRefactor_def allProblems_def)
qed

lemma shouldAbortRefactor_ok:
  assumes "\<forall>p\<in>set (allProblems r). severity p \<noteq> ''FATAL''"
  shows "shouldAbortRefactor r t = (False, t)"
proof -
  from assms have "filter (\<lambda>e. severity e = ''FATAL'') (allProblems r) = []"
    by (simp add: filter_empty_iff)
  then show ?thesis
    by (simp add: shouldAbortRefactor_def allProblems_def)
qed

lemma refactorOptions_Some:
  "refactorOptions k = Some resolver \<Longrightarrow> k = EXTRACT_METHOD \<and> resolver = getExtractMethodArgs"
  by (cases k) auto

lemma getExtractMethodArgs_Some:
  assumes "getExtractMethodArgs env f t = (Inr (Some opts), t3)"
  shows "\<exists>box. t3 = t @ [ShowInputBox box] \<and> name opts \<noteq> []"
  using assms
  by (auto simp: getExtractMethodArgs_def Let_def split: option.splits list.splits if_splits)

lemma performRefactor_validated:
  assumes "\<not> isClosed doc"
    and "\<forall>p\<in>set (allProblems (validationResult env doc k rng)). severity p \<noteq> ''FATAL''"
  shows "performRefactor env (Some doc) rng k =
     (case refactorOptions k of
        None \<Rightarrow> (Inl TypeError, [EditGetRefactoring (getRefactor_request doc k rng True None)])
      | Some resolver \<Rightarrow>
          (case resolver env (feedback (validationResult env doc k rng))
                  [EditGetRefactoring (getRefactor_request doc k rng True None)] of
             (Inl e, t3) \<Rightarrow> (Inl e, t3)
           | (Inr None, t3) \<Rightarrow> (Inr (), t3)
           | (Inr (Some opts), t3) \<Rightarrow>
               (case shouldApplyEdits env (editResult env doc k rng opts) doc (version doc 0)
                       (t3 @ [EditGetRefactoring (getRefactor_request doc k rng False (Some opts))]) of
                  (True, t5) \<Rightarrow> (Inr (), t5 @ [ApplySourceChange doc (change (editResult env doc k rng opts))])
                | (False, t5) \<Rightarrow> (Inr (), t5))))"
  using assms(1) shouldAbortRefactor_ok [OF assms(2)]
  by (simp add: performRefactor_def getRefactor_def validationResult_def editResult_def Let_def
        split: option.splits prod.splits sum.splits bool.splits)


lemma performRefactor_edit:
  assumes "\<not> isClosed doc"
    and "\<forall>p\<in>set (allProblems (validationResult env doc k rng)). severity p \<noteq> ''FATAL''"
    and "refactorOptions k = Some resolver"
    and "resolver env (feedback (validationResult env doc k rng))
           [EditGetRefactoring (getRefactor_request doc k rng True None)] = (Inr (Some opts), t3)"
  shows "performRefactor env (Some doc) rng k =
     (case shouldApplyEdits env (editResult env doc k rng opts) doc (version doc 0)
             (t3 @ [EditGetRefactoring (getRefactor_request doc k rng False (Some opts))]) of
        (True, t5) \<Rightarrow> (Inr (), t5 @ [ApplySourceChange doc (change (editResult env doc k rng opts))])
      | (False, t5) \<Rightarrow> (Inr (), t5))"
  using assms(3,4) by (simp add: performRefactor_validated [OF assms(1,2)])

lemma shouldApplyEdits_fatal:
  assumes "\<exists>p\<in>set (allProblems r). severity p = ''FATAL''"
  shows "shouldApplyEdits env r doc v t =
     (False, t @ [ShowMessage ErrorMessage
        (join ''\<newline>\<newline>''
           (unique (map message (filter (\<lambda>e. severity e = ''FATAL'') (allProblems r))))
         @ ''\<newline>\<newline>Your refactor was not applied.'') []])"
proof -
  from assms have "filter (\<lambda>e. severity e = ''FATAL'') (allProblems r) \<noteq> []"
    by (simp add: filter_empty_iff)
  then show ?thesis
    by (simp add: shouldApplyEdits_def allProblems_def Let_def)
qed

lemma shouldApplyEdits_no_change:
  assumes "\<forall>p\<in>set (allProblems r). severity p \<noteq> ''FATAL''" and "change r = None"
  shows "shouldApplyEdits env r doc v t = (False, t)"
proof -
  from assms(1) have "filter (\<lambda>e. severity e = ''FATAL'') (allProblems r) = []"
    by (simp add: filter_empty_iff)
  with assms(2) show ?thesis
    by (simp add: shouldApplyEdits_def allProblems_def Let_def)
qed

lemma hasErrors_iff:
  "(find (\<lambda>e. severity e = ''ERROR'') ps \<noteq> None) = (\<exists>p\<in>set ps. severity p = ''ERROR'')"
  by (auto simp: find_None_iff)

lemma shouldApplyEdits_quiet:
  assumes "\<forall>p\<in>set (allProblems r). severity p \<noteq> ''FATAL''" and "change r \<noteq> None"
    and "filter (\<lambda>e. severity e = ''ERROR'' \<or> severity e = ''WARNING'') (allProblems r) = []"
  shows "shouldApplyEdits env r doc v t =
     (if version doc (length t) = v then (True, t)
      else (False, t @ [ShowMessage ErrorMessage REFACTOR_FAILED_DOC_MODIFIED []]))"
proof -
  from assms(1) have "filter (\<lambda>e. severity e = ''FATAL'') (allProblems r) = []"
    by (simp add: filter_empty_iff)
  with assms(2,3) show ?thesis
    by (simp add: shouldApplyEdits_def allProblems_def Let_def)
qed

lemma shouldApplyEdits_ask:
  assumes "\<forall>p\<in>set (allProblems r). severity p \<noteq> ''FATAL''" and "change r \<noteq> None"
    and "filter (\<lambda>e. severity e = ''ERROR'' \<or> severity e = ''WARNING'') (allProblems r) \<noteq> []"
    and "lvl = (if \<exists>p\<in>set (allProblems r). severity p = ''ERROR'' then ErrorMessage
                else WarningMessage)"
    and "msg = join ''\<newline>\<newline>'' (unique (map message
                 (filter (\<lambda>e. severity e = ''ERROR'' \<or> severity e = ''WARNING'') (allProblems r))))"
  shows "shouldApplyEdits env r doc v t =
     (if showMessage env lvl msg [REFACTOR_ANYWAY] = Some REFACTOR_ANYWAY then
        if version doc (Suc (length t)) = v
        then (True, t @ [ShowMessage lvl msg [REFACTOR_ANYWAY]])
        else (False, t @ [ShowMessage lvl msg [REFACTOR_ANYWAY],
                          ShowMessage ErrorMessage REFACTOR_FAILED_DOC_MODIFIED []])
      else (False, t @ [ShowMessage lvl msg [REFACTOR_ANYWAY]]))"
proof -
  from assms(1) have nf: "filter (\<lambda>e. severity e = ''FATAL'') (allProblems r) = []"
    by (simp add: filter_empty_iff)
  have he: "(find (\<lambda>e. severity e = ''ERROR'') (allProblems r) \<noteq> None)
              = (\<exists>p\<in>set (allProblems r). severity p = ''ERROR'')"
    by (rule hasErrors_iff)
  show ?thesis
    using nf assms(2,3) he
    unfolding assms(4,5) shouldApplyEdits_def Let_def allProblems_def
    by (simp split: if_splits)
qed

lemma getExtractMethodArgs_trace:
  assumes "getExtractMethodArgs env f t = (x, t3)"
  shows "t3 = t \<or> (\<exists>box. t3 = t @ [ShowInputBox box])"
  using assms
  by (auto simp: getExtractMethodArgs_def Let_def split: option.splits list.splits if_splits)

lemma shouldApplyEdits_trace:
  assumes "shouldApplyEdits env r doc v t = (b, t5)"
  shows "\<exists>ms. t5 = t @ ms \<and> (\<forall>e\<in>set ms. \<exists>l m c. e = ShowMessage l m c)"
  using assms
  by (auto simp: shouldApplyEdits_def Let_def split: if_splits)

lemma performRefactor_requests:
  assumes "performRefactor env document rng k = (res, tr)"
    and "EditGetRefactoring r \<in> set tr"
    and "options r = Some opts"
  shows "name opts \<noteq> []"
proof (cases document)
  case None
  with assms show ?thesis by (simp add: performRefactor_def)
next
  case (Some doc)
  show ?thesis
  proof (cases "isClosed doc")
    case True
    with Some assms show ?thesis by (simp add: performRefactor_def)
  next
    case False
    let ?vreq = "getRefactor_request doc k rng True None :: 'a request"
    have vo: "options ?vreq = None" by (simp add: getRefactor_request_def)
    show ?thesis
    proof (cases "find (\<lambda>p. severity p = ''FATAL'')
                    (allProblems (validationResult env doc k rng))")
      case (Some p)
      have "tr = [EditGetRefactoring ?vreq, ShowMessage ErrorMessage (message p) []]"
        using assms(1) False \<open>document = Some doc\<close> shouldAbortRefactor_fatal [OF Some]
        by (simp add: performRefactor_def getRefactor_def validationResult_def Let_def)
      with assms(2,3) vo show ?thesis by auto
    next
      case None
      then have valid: "\<forall>p\<in>set (allProblems (validationResult env doc k rng)).
                          severity p \<noteq> ''FATAL''"
        by (simp add: find_None_iff)
      note unf = performRefactor_validated [OF False valid]
      show ?thesis
      proof (cases "refactorOptions k :: ('a, 'b) resolver option")
        case None
        with assms(1) \<open>document = Some doc\<close> unf have "tr = [EditGetRefactoring ?vreq]"
          by simp
        with assms(2,3) vo show ?thesis by auto
      next
        case (Some resolver)
        then have rs: "resolver = getExtractMethodArgs"
          by (simp add: refactorOptions_Some)
        obtain x t3 where x: "getExtractMethodArgs env (feedback (validationResult env doc k rng))
                           [EditGetRefactoring ?vreq] = (x, t3)"
          by (cases "getExtractMethodArgs env (feedback (validationResult env doc k rng))
                           [EditGetRefactoring ?vreq]") blast
        from getExtractMethodArgs_trace [OF x]
        have t3: "\<forall>q. EditGetRefactoring q \<in> set t3 \<longrightarrow> q = ?vreq" by auto
        show ?thesis
        proof (cases x)
          case (Inl e)
          with assms(1) \<open>document = Some doc\<close> unf Some rs x have "tr = t3" by simp
          with assms(2,3) vo t3 show ?thesis by auto
        next
          case (Inr oo)
          show ?thesis
          proof (cases oo)
            case None
            with Inr assms(1) \<open>document = Some doc\<close> unf Some rs x have "tr = t3" by simp
            with assms(2,3) vo t3 show ?thesis by auto
          next
            case (Some o1)
            with Inr x getExtractMethodArgs_Some have nm: "name o1 \<noteq> []" by blast
            let ?ereq = "getRefactor_request doc k rng False (Some o1)"
            obtain b t5 where sa: "shouldApplyEdits env (editResult env doc k rng o1) doc
                       (version doc 0) (t3 @ [EditGetRefactoring ?ereq]) = (b, t5)"
              by (cases "shouldApplyEdits env (editResult env doc k rng o1) doc
                       (version doc 0) (t3 @ [EditGetRefactoring ?ereq])") blast
            from shouldApplyEdits_trace [OF sa] obtain ms
              where ms: "t5 = t3 @ [EditGetRefactoring ?ereq] @ ms"
                and sm: "\<forall>e\<in>set ms. \<exists>l m c. e = ShowMessage l m c" by auto
            have "tr = t5 \<or> tr = t5 @ [ApplySourceChange doc (change (editResult env doc k rng o1))]"
              using assms(1) \<open>document = Some doc\<close> unf \<open>refactorOptions k = Some resolver\<close>
                rs x Inr Some sa
              by (cases b) simp_all
            with assms(2) ms sm t3 have "r = ?vreq \<or> r = ?ereq" by auto
            with assms(3) vo nm show ?thesis
              by (auto simp: getRefactor_request_def)
          qed
        qed
      qed
    qed
  qed
qed

lemma sample_run:
  "performRefactor
     (sample_env (sample_response [] [] [] None) (sample_response [] [] [] (Some ''edit''))
        (Some ''computeTotal'') None)
     (Some (sample_document steady_version)) sample_range EXTRACT_METHOD =
   (Inr (),
    [EditGetRefactoring
       (getRefactor_request (sample_document steady_version) EXTRACT_METHOD sample_range True None),
     ShowInputBox \<lparr>prompt = ''Enter a name for the method'', value_opt = Some ''extracted''\<rparr>,
     EditGetRefactoring
       (getRefactor_request (sample_document steady_version) EXTRACT_METHOD sample_range False
          (Some sample_options)),
     ApplySourceChange (sample_document steady_version) (Some ''edit'')])"
  by (simp add: performRefactor_def getRefactor_def getRefactor_request_def
        shouldAbortRefactor_def shouldApplyEdits_def getExtractMethodArgs_def
        sample_env_def sample_response_def sample_document_def steady_version_def
        sample_feedback_def
        sample_options_def sample_range_def Let_def)

lemma resolved_trace:
  assumes "refactorOptions k = Some resolver"
    and "resolver env f t = (Inr (Some opts), t3)"
  shows "\<exists>box. t3 = t @ [ShowInputBox box]"
  using assms refactorOptions_Some getExtractMethodArgs_Some by blast

lemma sample_resolved:
  "getExtractMethodArgs (sample_env v e (Some ''computeTotal'') pick)
     (feedback (validationResult (sample_env (sample_response i1 i2 i3 c) e (Some ''computeTotal'') pick)
        doc k rng)) t =
   (Inr (Some sample_options),
    t @ [ShowInputBox \<lparr>prompt = ''Enter a name for the method'',
                       value_opt = Some ''extracted''\<rparr>])"
  by (simp add: getExtractMethodArgs_def validationResult_def sample_env_def
        sample_response_def sample_feedback_def sample_options_def getRefactor_request_def)

lemma only_actionable:
  assumes "\<forall>p\<in>set ps. severity p = ''ERROR'' \<or> severity p = ''WARNING''"
  shows "filter (\<lambda>e. severity e = ''ERROR'' \<or> severity e = ''WARNING'') ps = ps"
    and "\<forall>p\<in>set ps. severity p \<noteq> ''FATAL''"
  using assms by (auto simp: filter_id_conv)

lemma performRefactor_gate:
  assumes "\<not> isClosed doc"
    and "\<forall>p\<in>set (allProblems (validationResult env doc k rng)). severity p \<noteq> ''FATAL''"
    and "refactorOptions k = Some resolver"
    and "resolver env (feedback (validationResult env doc k rng))
           [EditGetRefactoring (getRefactor_request doc k rng True None)] = (Inr (Some opts), t3)"
    and "\<forall>p\<in>set (allProblems (editResult env doc k rng opts)). severity p \<noteq> ''FATAL''"
    and "change (editResult env doc k rng opts) \<noteq> None"
    and "warnings = filter (\<lambda>e. severity e = ''ERROR'' \<or> severity e = ''WARNING'')
                      (allProblems (editResult env doc k rng opts))"
    and "lvl = (if \<exists>p\<in>set (allProblems (editResult env doc k rng opts)). severity p = ''ERROR''
                then ErrorMessage else WarningMessage)"
    and "msg = join ''\<newline>\<newline>'' (unique (map message warnings))"
    and "tg = t3 @ [EditGetRefactoring (getRefactor_request doc k rng False (Some opts))]
                @ (if warnings = [] then [] else [ShowMessage lvl msg [REFACTOR_ANYWAY]])"
  shows "performRefactor env (Some doc) rng k =
           (if warnings = [] \<or> showMessage env lvl msg [REFACTOR_ANYWAY] = Some REFACTOR_ANYWAY
            then (Inr (), tg @ [if version doc (length tg) = version doc 0
                                then ApplySourceChange doc (change (editResult env doc k rng opts))
                                else ShowMessage ErrorMessage REFACTOR_FAILED_DOC_MODIFIED []])
            else (Inr (), tg))"
proof (cases "warnings = []")
  case True
  then have w: "filter (\<lambda>e. severity e = ''ERROR'' \<or> severity e = ''WARNING'')
                      (allProblems (editResult env doc k rng opts)) = []"
    by (simp add: assms(7))
  show ?thesis
    using True
    by (simp add: performRefactor_edit [OF assms(1-4)]
          shouldApplyEdits_quiet [OF assms(5,6) w] assms(10))
next
  case False
  then have w: "filter (\<lambda>e. severity e = ''ERROR'' \<or> severity e = ''WARNING'')
                      (allProblems (editResult env doc k rng opts)) \<noteq> []"
    by (simp add: assms(7))
  have m: "msg = join ''\<newline>\<newline>'' (unique (map message
                 (filter (\<lambda>e. severity e = ''ERROR'' \<or> severity e = ''WARNING'')
                    (allProblems (editResult env doc k rng opts)))))"
    by (simp add: assms(9,7))
  show ?thesis
    using False
    by (simp add: performRefactor_edit [OF assms(1-4)]
          shouldApplyEdits_ask [OF assms(5,6) w assms(8) m] assms(10))
qed

lemma getRefactor_request_version:
  "getRefactor_request (doc\<lparr>version := v'\<rparr>) k rng vo opts = getRefactor_request doc k rng vo opts"
  by (simp add: getRefactor_request_def)

lemma applyCalls_empty_iff:
  "(applyCalls tr = []) = (\<forall>d c. ApplySourceChange d c \<notin> set tr)"
  by (induction tr rule: applyCalls.induct) auto

lemma shouldApplyEdits_True:
  assumes "shouldApplyEdits env r doc v t = (True, t5)"
  shows "(\<forall>p\<in>set (allProblems r). severity p \<noteq> ''FATAL'')
       \<and> change r \<noteq> None \<and> version doc (length t5) = v"
proof -
  have nf: "filter (\<lambda>e. severity e = ''FATAL'') (allProblems r) = []"
    using assms by (auto simp: shouldApplyEdits_def allProblems_def Let_def split: if_splits)
  have rest: "change r \<noteq> None \<and> version doc (length t5) = v"
    using assms by (auto simp: shouldApplyEdits_def Let_def split: if_splits)
  from nf rest show ?thesis by (simp add: filter_empty_iff)
qed

lemma performRefactor_applied:
  assumes "performRefactor env document rng k = (res, tr)"
    and "applyCalls tr \<noteq> []"
  shows "\<exists>doc opts t3 t5. document = Some doc
       \<and> shouldApplyEdits env (editResult env doc k rng opts) doc (version doc 0)
            (t3 @ [EditGetRefactoring (getRefactor_request doc k rng False (Some opts))])
           = (True, t5)
       \<and> applyCalls t3 = []
       \<and> tr = t5 @ [ApplySourceChange doc (change (editResult env doc k rng opts))]"
proof (cases document)
  case None
  with assms show ?thesis by (simp add: performRefactor_def)
next
  case (Some doc)
  show ?thesis
  proof (cases "isClosed doc")
    case True
    with Some assms show ?thesis by (simp add: performRefactor_def)
  next
    case False
    let ?vreq = "getRefactor_request doc k rng True None :: 'a request"
    show ?thesis
    proof (cases "find (\<lambda>p. severity p = ''FATAL'')
                    (allProblems (validationResult env doc k rng))")
      case (Some p)
      have "tr = [EditGetRefactoring ?vreq, ShowMessage ErrorMessage (message p) []]"
        using assms(1) False \<open>document = Some doc\<close> shouldAbortRefactor_fatal [OF Some]
        by (simp add: performRefactor_def getRefactor_def validationResult_def Let_def)
      with assms(2) show ?thesis by simp
    next
      case None
      then have valid: "\<forall>p\<in>set (allProblems (validationResult env doc k rng)).
                          severity p \<noteq> ''FATAL''"
        by (simp add: find_None_iff)
      note unf = performRefactor_validated [OF False valid]
      show ?thesis
      proof (cases "refactorOptions k :: ('a, 'b) resolver option")
        case None
        with assms(1) \<open>document = Some doc\<close> unf have "tr = [EditGetRefactoring ?vreq]"
          by simp
        with assms(2) show ?thesis by simp
      next
        case (Some resolver)
        then have rs: "resolver = getExtractMethodArgs"
          by (simp add: refactorOptions_Some)
        obtain x t3 where x: "getExtractMethodArgs env (feedback (validationResult env doc k rng))
                           [EditGetRefactoring ?vreq] = (x, t3)"
          by (cases "getExtractMethodArgs env (feedback (validationResult env doc k rng))
                           [EditGetRefactoring ?vreq]") blast
        from getExtractMethodArgs_trace [OF x]
        have t3: "applyCalls t3 = []" by auto
        show ?thesis
        proof (cases x)
          case (Inl e)
          with assms(1) \<open>document = Some doc\<close> unf Some rs x have "tr = t3" by simp
          with assms(2) t3 show ?thesis by simp
        next
          case (Inr oo)
          show ?thesis
          proof (cases oo)
            case None
            with Inr assms(1) \<open>document = Some doc\<close> unf Some rs x have "tr = t3" by simp
            with assms(2) t3 show ?thesis by simp
          next
            case (Some o1)
            let ?ereq = "getRefactor_request doc k rng False (Some o1)"
            obtain b t5 where sa: "shouldApplyEdits env (editResult env doc k rng o1) doc
                       (version doc 0) (t3 @ [EditGetRefactoring ?ereq]) = (b, t5)"
              by (cases "shouldApplyEdits env (editResult env doc k rng o1) doc
                       (version doc 0) (t3 @ [EditGetRefactoring ?ereq])") blast
            from shouldApplyEdits_trace [OF sa] obtain ms
              where ms: "t5 = t3 @ [EditGetRefactoring ?ereq] @ ms"
                and sm: "\<forall>e\<in>set ms. \<exists>l m c. e = ShowMessage l m c" by auto
            have t5: "applyCalls t5 = []"
              unfolding applyCalls_empty_iff ms using t3 sm
              by (auto simp: applyCalls_empty_iff)
            show ?thesis
            proof (cases b)
              case True
              have "tr = t5 @ [ApplySourceChange doc (change (editResult env doc k rng o1))]"
                using assms(1) \<open>document = Some doc\<close> unf \<open>refactorOptions k = Some resolver\<close>
                  rs x Inr Some sa True
                by simp
              moreover from sa True
              have "shouldApplyEdits env (editResult env doc k rng o1) doc
                       (version doc 0) (t3 @ [EditGetRefactoring ?ereq]) = (True, t5)"
                by simp
              ultimately show ?thesis
                using t3 \<open>document = Some doc\<close> by blast
            next
              case False
              have "tr = t5"
                using assms(1) \<open>document = Some doc\<close> unf \<open>refactorOptions k = Some resolver\<close>
                  rs x Inr Some sa False
                by simp
              with assms(2) t5 show ?thesis by simp
            qed
          qed
        qed
      qed
    qed
  qed
qed

section \<open>The claims\<close>

text \<open>
  C1. The source change is handed to \<open>_dart.applySourceChange\<close> only if the three problem
  lists of the edit response hold no FATAL problem and the version the document has at
  the final check equals the version read on entry, before the validation request. In a
  trace that holds an apply call, that call is the last one, the edit request was sent
  before it, and \<open>version doc (length t5)\<close> is the version read at the final check.
\<close>

theorem apply_only_without_fatal_and_unchanged:
  assumes "performRefactor env document rng k = (res, tr)"
    and "ApplySourceChange d c \<in> set tr"
  shows "\<exists>doc opts t5. document = Some doc \<and> d = doc
       \<and> c = change (editResult env doc k rng opts)
       \<and> tr = t5 @ [ApplySourceChange d c]
       \<and> applyCalls t5 = []
       \<and> EditGetRefactoring (getRefactor_request doc k rng False (Some opts)) \<in> set t5
       \<and> (\<forall>p\<in>set (allProblems (editResult env doc k rng opts)). severity p \<noteq> ''FATAL'')
       \<and> version doc (length t5) = version doc 0"
proof -
  from assms(2) have "applyCalls tr \<noteq> []"
    by (auto simp: applyCalls_empty_iff)
  from performRefactor_applied [OF assms(1) this] obtain doc opts t3 t5
    where doc: "document = Some doc"
      and sa: "shouldApplyEdits env (editResult env doc k rng opts) doc (version doc 0)
            (t3 @ [EditGetRefactoring (getRefactor_request doc k rng False (Some opts))])
           = (True, t5)"
      and t3: "applyCalls t3 = []"
      and tr: "tr = t5 @ [ApplySourceChange doc (change (editResult env doc k rng opts))]"
    by blast
  from shouldApplyEdits_trace [OF sa] obtain ms
    where ms: "t5 = t3 @ [EditGetRefactoring (getRefactor_request doc k rng False (Some opts))] @ ms"
      and sm: "\<forall>e\<in>set ms. \<exists>l m c. e = ShowMessage l m c" by auto
  have t5: "applyCalls t5 = []"
    unfolding ms using t3 sm by (auto simp: applyCalls_empty_iff)
  then have "ApplySourceChange d c \<notin> set t5"
    by (simp add: applyCalls_empty_iff)
  with assms(2) tr have dc: "d = doc" "c = change (editResult env doc k rng opts)"
    by auto
  have rq: "EditGetRefactoring (getRefactor_request doc k rng False (Some opts)) \<in> set t5"
    unfolding ms by simp
  from shouldApplyEdits_True [OF sa]
  have nf: "\<forall>p\<in>set (allProblems (editResult env doc k rng opts)). severity p \<noteq> ''FATAL''"
    and v: "version doc (length t5) = version doc 0"
    by blast+
  from doc dc tr t5 rq nf v show ?thesis by blast
qed

theorem apply_only_without_fatal_and_unchanged_witness:
  "\<exists>doc opts t5.
      Some (sample_document steady_version) = Some doc \<and> sample_document steady_version = doc
    \<and> Some ''edit'' =
        change (editResult
          (sample_env (sample_response [] [] [] None) (sample_response [] [] [] (Some ''edit''))
             (Some ''computeTotal'') None)
          doc EXTRACT_METHOD sample_range opts)
    \<and> [EditGetRefactoring
         (getRefactor_request (sample_document steady_version) EXTRACT_METHOD sample_range True None),
        ShowInputBox \<lparr>prompt = ''Enter a name for the method'',
                       value_opt = Some ''extracted''\<rparr>,
        EditGetRefactoring
         (getRefactor_request (sample_document steady_version) EXTRACT_METHOD sample_range False
            (Some sample_options)),
        ApplySourceChange (sample_document steady_version) (Some ''edit'')]
       = t5 @ [ApplySourceChange (sample_document steady_version) (Some ''edit'')]
    \<and> applyCalls t5 = []
    \<and> EditGetRefactoring (getRefactor_request doc EXTRACT_METHOD sample_range False (Some opts))
        \<in> set t5
    \<and> (\<forall>p\<in>set (allProblems (editResult
          (sample_env (sample_response [] [] [] None) (sample_response [] [] [] (Some ''edit''))
             (Some ''computeTotal'') None)
          doc EXTRACT_METHOD sample_range opts)). severity p \<noteq> ''FATAL'')
    \<and> version doc (length t5) = version doc 0"
proof -
  let ?env = "sample_env (sample_response [] [] [] None)
                (sample_response [] [] [] (Some ''edit'')) (Some ''computeTotal'') None"
  let ?doc = "sample_document steady_version"
  let ?tr = "[EditGetRefactoring
               (getRefactor_request ?doc EXTRACT_METHOD sample_range True None),
             ShowInputBox \<lparr>prompt = ''Enter a name for the method'',
                            value_opt = Some ''extracted''\<rparr>,
             EditGetRefactoring
               (getRefactor_request ?doc EXTRACT_METHOD sample_range False (Some sample_options)),
             ApplySourceChange ?doc (Some ''edit'')] :: (string, string) trace"
  have h1: "performRefactor ?env (Some ?doc) sample_range EXTRACT_METHOD = (Inr (), ?tr)"
    by (rule sample_run)
  have h2: "ApplySourceChange ?doc (Some ''edit'') \<in> set ?tr" by simp
  show ?thesis
    by (rule apply_only_without_fatal_and_unchanged [OF h1 h2])
qed

text \<open>
  C2, as the claim states it: for a kind with no resolver the command ends as a silent
  no-op after a successful validation. It does not. \<open>refactorOptions[refactorKind]\<close> is
  \<open>undefined\<close> for such a kind and the code calls it, which raises a TypeError: the
  command ends with an exception.
\<close>

theorem unregistered_kind_is_silent_counterexample:
  "refactorOptions (OTHER_KIND ''RENAME'') = (None :: (string, string) resolver option)
   \<and> allProblems (validationResult
        (sample_env (sample_response [] [] [] None) (sample_response [] [] [] (Some ''edit''))
           (Some ''computeTotal'') None)
        (sample_document steady_version) (OTHER_KIND ''RENAME'') sample_range) = []
   \<and> fst (performRefactor
        (sample_env (sample_response [] [] [] None) (sample_response [] [] [] (Some ''edit''))
           (Some ''computeTotal'') None)
        (Some (sample_document steady_version)) sample_range (OTHER_KIND ''RENAME'')) = Inl TypeError"
  by (simp add: performRefactor_def getRefactor_def getRefactor_request_def
        shouldAbortRefactor_def allProblems_def validationResult_def sample_env_def
        sample_response_def sample_document_def)

text \<open>
  C2, amended. For a kind with no resolver, after a successful validation, the command
  raises a TypeError at the call of the absent resolver. The trace holds the validation
  request only: the command itself shows no message, sends no request that carries
  options and does not apply anything.
\<close>

theorem unregistered_kind_raises:
  assumes "\<not> isClosed doc"
    and "\<forall>p\<in>set (allProblems (validationResult env doc k rng)). severity p \<noteq> ''FATAL''"
    and "refactorOptions k = (None :: ('p, 'c) resolver option)"
  shows "performRefactor (env :: ('p, 'c) env) (Some doc) rng k =
           (Inl TypeError, [EditGetRefactoring (getRefactor_request doc k rng True None)])"
  using assms(3) by (simp add: performRefactor_validated [OF assms(1,2)])

theorem unregistered_kind_raises_witness:
  "performRefactor
     (sample_env (sample_response [] [] [] None) (sample_response [] [] [] (Some ''edit''))
        (Some ''computeTotal'') None)
     (Some (sample_document steady_version)) sample_range (OTHER_KIND ''RENAME'') =
   (Inl TypeError,
    [EditGetRefactoring
       (getRefactor_request (sample_document steady_version) (OTHER_KIND ''RENAME'') sample_range
          True None)])"
proof -
  let ?env = "sample_env (sample_response [] [] [] None) (sample_response [] [] [] (Some ''edit''))
        (Some ''computeTotal'') None"
  let ?doc = "sample_document steady_version"
  have h1: "\<not> isClosed ?doc" by (simp add: sample_document_def)
  have h2: "\<forall>p\<in>set (allProblems (validationResult ?env ?doc (OTHER_KIND ''RENAME'') sample_range)).
              severity p \<noteq> ''FATAL''"
    by (simp add: allProblems_def validationResult_def sample_env_def sample_response_def
          getRefactor_request_def)
  have h3: "refactorOptions (OTHER_KIND ''RENAME'') = (None :: (string, string) resolver option)"
    by simp
  show ?thesis
    using unregistered_kind_raises [OF h1 h2 h3] by simp
qed

text \<open>
  C3. When the three problem lists of the validation response hold a FATAL problem, the
  command stops after the validation request: the trace holds that request and one error
  message and nothing else, so no resolver has run and no second request was sent. The
  message is that of the first FATAL problem of the initial problems, then the options
  problems, then the final problems. This holds for every kind, registered or not.
\<close>

theorem validation_fatal_aborts_with_first_message:
  assumes "\<not> isClosed doc"
    and "find (\<lambda>p. severity p = ''FATAL'') (allProblems (validationResult env doc k rng)) = Some p"
  shows "performRefactor env (Some doc) rng k =
           (Inr (), [EditGetRefactoring (getRefactor_request doc k rng True None),
                     ShowMessage ErrorMessage (message p) []])"
  using assms(1) shouldAbortRefactor_fatal [OF assms(2)]
  by (simp add: performRefactor_def getRefactor_def validationResult_def Let_def)

theorem validation_fatal_aborts_with_first_message_witness:
  "find (\<lambda>p. severity p = ''FATAL'')
     ([\<lparr>severity = ''WARNING'', message = ''w''\<rparr>] @ [\<lparr>severity = ''FATAL'', message = ''first''\<rparr>]
        @ [\<lparr>severity = ''FATAL'', message = ''second''\<rparr>])
     = Some \<lparr>severity = ''FATAL'', message = ''first''\<rparr>
   \<and> performRefactor
       (sample_env
          (sample_response [\<lparr>severity = ''WARNING'', message = ''w''\<rparr>]
             [\<lparr>severity = ''FATAL'', message = ''first''\<rparr>]
             [\<lparr>severity = ''FATAL'', message = ''second''\<rparr>] None)
          (sample_response [] [] [] (Some ''edit'')) (Some ''computeTotal'') None)
       (Some (sample_document steady_version)) sample_range EXTRACT_METHOD =
     (Inr (), [EditGetRefactoring
                 (getRefactor_request (sample_document steady_version) EXTRACT_METHOD sample_range True None),
               ShowMessage ErrorMessage ''first'' []])"
proof -
  let ?v = "sample_response [\<lparr>severity = ''WARNING'', message = ''w''\<rparr>]
             [\<lparr>severity = ''FATAL'', message = ''first''\<rparr>]
             [\<lparr>severity = ''FATAL'', message = ''second''\<rparr>] None"
  let ?env = "sample_env ?v (sample_response [] [] [] (Some ''edit'')) (Some ''computeTotal'') None"
  let ?doc = "sample_document steady_version"
  have h1: "\<not> isClosed ?doc" by (simp add: sample_document_def)
  have h2: "find (\<lambda>p. severity p = ''FATAL'')
              (allProblems (validationResult ?env ?doc EXTRACT_METHOD sample_range))
            = Some \<lparr>severity = ''FATAL'', message = ''first''\<rparr>"
    by (simp add: allProblems_def validationResult_def sample_env_def sample_response_def
          getRefactor_request_def)
  show ?thesis
    using validation_fatal_aborts_with_first_message [OF h1 h2] by simp
qed

text \<open>
  C4. When the edit response holds a FATAL problem, the command shows one error message
  without any item to pick (the user is not asked, and the answer the environment would
  give to a message plays no part) and stops without applying the change. The message is
  the FATAL messages, each once, joined by a blank line, followed by a blank line and
  "Your refactor was not applied.". The first four hypotheses say that the command has
  come as far as the edit request: the document is open, the validation found no FATAL
  problem and the registered resolver has produced the options \<open>opts\<close>.
\<close>

theorem fatal_edit_problems_abort_unprompted:
  assumes "\<not> isClosed doc"
    and "\<forall>p\<in>set (allProblems (validationResult env doc k rng)). severity p \<noteq> ''FATAL''"
    and "refactorOptions k = Some resolver"
    and "resolver env (feedback (validationResult env doc k rng))
           [EditGetRefactoring (getRefactor_request doc k rng True None)] = (Inr (Some opts), t3)"
    and "\<exists>p\<in>set (allProblems (editResult env doc k rng opts)). severity p = ''FATAL''"
    and "msgs = unique (map message (filter (\<lambda>e. severity e = ''FATAL'')
                  (allProblems (editResult env doc k rng opts))))"
    and "shown = ShowMessage ErrorMessage
                   (join ''\<newline>\<newline>'' msgs @ ''\<newline>\<newline>Your refactor was not applied.'') []"
  shows "performRefactor env (Some doc) rng k =
           (Inr (), t3 @ [EditGetRefactoring (getRefactor_request doc k rng False (Some opts)),
                          shown])
       \<and> shouldApplyEdits env (editResult env doc k rng opts) doc v t = (False, t @ [shown])
       \<and> applyCalls (snd (performRefactor env (Some doc) rng k)) = []
       \<and> distinct msgs
       \<and> set msgs = {message p | p. p \<in> set (allProblems (editResult env doc k rng opts))
                                   \<and> severity p = ''FATAL''}"
proof -
  have sa: "shouldApplyEdits env (editResult env doc k rng opts) doc v t = (False, t @ [shown])"
    for v t
    unfolding assms(6,7) by (simp add: shouldApplyEdits_fatal [OF assms(5)])
  have pr: "performRefactor env (Some doc) rng k =
           (Inr (), t3 @ [EditGetRefactoring (getRefactor_request doc k rng False (Some opts)),
                          shown])"
    by (simp add: performRefactor_edit [OF assms(1-4)] sa)
  from resolved_trace [OF assms(3,4)] obtain box
    where t3: "t3 = [EditGetRefactoring (getRefactor_request doc k rng True None),
                     ShowInputBox box]"
    by auto
  have ac: "applyCalls (snd (performRefactor env (Some doc) rng k)) = []"
    unfolding pr assms(7) t3 by simp
  have d: "distinct msgs" unfolding assms(6) by (rule unique_distinct)
  have s: "set msgs = {message p | p. p \<in> set (allProblems (editResult env doc k rng opts))
                                   \<and> severity p = ''FATAL''}"
    unfolding assms(6) by (auto simp: unique_set)
  from pr sa ac d s show ?thesis by blast
qed

theorem fatal_edit_problems_abort_unprompted_witness:
  "performRefactor
     (sample_env (sample_response [] [] [] None)
        (sample_response [\<lparr>severity = ''FATAL'', message = ''no''\<rparr>]
           [\<lparr>severity = ''WARNING'', message = ''w''\<rparr>, \<lparr>severity = ''FATAL'', message = ''bad''\<rparr>]
           [\<lparr>severity = ''FATAL'', message = ''no''\<rparr>] (Some ''edit''))
        (Some ''computeTotal'') (Some REFACTOR_ANYWAY))
     (Some (sample_document steady_version)) sample_range EXTRACT_METHOD =
   (Inr (),
    [EditGetRefactoring
       (getRefactor_request (sample_document steady_version) EXTRACT_METHOD sample_range True None),
     ShowInputBox \<lparr>prompt = ''Enter a name for the method'', value_opt = Some ''extracted''\<rparr>,
     EditGetRefactoring
       (getRefactor_request (sample_document steady_version) EXTRACT_METHOD sample_range False
          (Some sample_options)),
     ShowMessage ErrorMessage
       ''no\<newline>\<newline>bad\<newline>\<newline>Your refactor was not applied.'' []])"
proof -
  let ?e = "sample_response [\<lparr>severity = ''FATAL'', message = ''no''\<rparr>]
           [\<lparr>severity = ''WARNING'', message = ''w''\<rparr>, \<lparr>severity = ''FATAL'', message = ''bad''\<rparr>]
           [\<lparr>severity = ''FATAL'', message = ''no''\<rparr>] (Some ''edit'')"
  let ?env = "sample_env (sample_response [] [] [] None) ?e
                (Some ''computeTotal'') (Some REFACTOR_ANYWAY)"
  let ?doc = "sample_document steady_version"
  let ?vreq = "EditGetRefactoring
       (getRefactor_request ?doc EXTRACT_METHOD sample_range True None)
       :: (string, string) event"
  have er: "editResult ?env ?doc EXTRACT_METHOD sample_range sample_options = ?e"
    by (simp add: editResult_def sample_env_def getRefactor_request_def)
  have h1: "\<not> isClosed ?doc" by (simp add: sample_document_def)
  have h2: "\<forall>p\<in>set (allProblems (validationResult ?env ?doc EXTRACT_METHOD sample_range)).
              severity p \<noteq> ''FATAL''"
    by (simp add: allProblems_def validationResult_def sample_env_def sample_response_def
          getRefactor_request_def)
  have h3: "refactorOptions EXTRACT_METHOD
              = Some (getExtractMethodArgs :: (string, string) resolver)"
    by simp
  have h4: "getExtractMethodArgs ?env
              (feedback (validationResult ?env ?doc EXTRACT_METHOD sample_range)) [?vreq]
            = (Inr (Some sample_options),
               [?vreq] @ [ShowInputBox \<lparr>prompt = ''Enter a name for the method'',
                                         value_opt = Some ''extracted''\<rparr>])"
    by (rule sample_resolved)
  have h5: "\<exists>p\<in>set (allProblems (editResult ?env ?doc EXTRACT_METHOD sample_range
                                    sample_options)). severity p = ''FATAL''"
    unfolding er by (simp add: allProblems_def sample_response_def)
  have m: "unique (map message (filter (\<lambda>e. severity e = ''FATAL'')
              (allProblems (editResult ?env ?doc EXTRACT_METHOD sample_range sample_options))))
           = [''no'', ''bad'']"
    unfolding er by (simp add: allProblems_def sample_response_def)
  show ?thesis
    using fatal_edit_problems_abort_unprompted [OF h1 h2 h3 h4 h5 refl refl, of 0 "[]"]
    unfolding m by simp
qed

text \<open>
  C5. When the edit response holds no FATAL problem and no change, \<open>shouldApplyEdits\<close>
  returns false with the trace as it was, and the trace of the command ends with the edit
  request: no message of any kind is in it, whatever ERROR or WARNING problems the
  response holds.
\<close>

theorem missing_change_aborts_silently:
  assumes "\<not> isClosed doc"
    and "\<forall>p\<in>set (allProblems (validationResult env doc k rng)). severity p \<noteq> ''FATAL''"
    and "refactorOptions k = Some resolver"
    and "resolver env (feedback (validationResult env doc k rng))
           [EditGetRefactoring (getRefactor_request doc k rng True None)] = (Inr (Some opts), t3)"
    and "\<forall>p\<in>set (allProblems (editResult env doc k rng opts)). severity p \<noteq> ''FATAL''"
    and "change (editResult env doc k rng opts) = None"
  shows "shouldApplyEdits env (editResult env doc k rng opts) doc v t = (False, t)
       \<and> performRefactor env (Some doc) rng k =
           (Inr (), t3 @ [EditGetRefactoring (getRefactor_request doc k rng False (Some opts))])
       \<and> (\<forall>l m c. ShowMessage l m c \<notin> set (snd (performRefactor env (Some doc) rng k)))
       \<and> applyCalls (snd (performRefactor env (Some doc) rng k)) = []"
proof -
  note sa = shouldApplyEdits_no_change [OF assms(5,6)]
  have pr: "performRefactor env (Some doc) rng k =
           (Inr (), t3 @ [EditGetRefactoring (getRefactor_request doc k rng False (Some opts))])"
    by (simp add: performRefactor_edit [OF assms(1-4)] sa)
  from resolved_trace [OF assms(3,4)] obtain box
    where t3: "t3 = [EditGetRefactoring (getRefactor_request doc k rng True None),
                     ShowInputBox box]"
    by auto
  have nm: "\<forall>l m c. ShowMessage l m c \<notin> set (snd (performRefactor env (Some doc) rng k))"
    unfolding pr t3 by simp
  have ac: "applyCalls (snd (performRefactor env (Some doc) rng k)) = []"
    unfolding pr t3 by simp
  from sa pr nm ac show ?thesis by blast
qed

theorem missing_change_aborts_silently_witness:
  "performRefactor
     (sample_env (sample_response [] [] [] None)
        (sample_response [\<lparr>severity = ''ERROR'', message = ''e''\<rparr>]
           [\<lparr>severity = ''WARNING'', message = ''w''\<rparr>] [] None)
        (Some ''computeTotal'') (Some REFACTOR_ANYWAY))
     (Some (sample_document steady_version)) sample_range EXTRACT_METHOD =
   (Inr (),
    [EditGetRefactoring
       (getRefactor_request (sample_document steady_version) EXTRACT_METHOD sample_range True None),
     ShowInputBox \<lparr>prompt = ''Enter a name for the method'', value_opt = Some ''extracted''\<rparr>,
     EditGetRefactoring
       (getRefactor_request (sample_document steady_version) EXTRACT_METHOD sample_range False
          (Some sample_options))])"
proof -
  let ?e = "sample_response [\<lparr>severity = ''ERROR'', message = ''e''\<rparr>]
           [\<lparr>severity = ''WARNING'', message = ''w''\<rparr>] [] None"
  let ?env = "sample_env (sample_response [] [] [] None) ?e
                (Some ''computeTotal'') (Some REFACTOR_ANYWAY)"
  let ?doc = "sample_document steady_version"
  let ?vreq = "EditGetRefactoring
       (getRefactor_request ?doc EXTRACT_METHOD sample_range True None)
       :: (string, string) event"
  have er: "editResult ?env ?doc EXTRACT_METHOD sample_range sample_options = ?e"
    by (simp add: editResult_def sample_env_def getRefactor_request_def)
  have h1: "\<not> isClosed ?doc" by (simp add: sample_document_def)
  have h2: "\<forall>p\<in>set (allProblems (validationResult ?env ?doc EXTRACT_METHOD sample_range)).
              severity p \<noteq> ''FATAL''"
    by (simp add: allProblems_def validationResult_def sample_env_def sample_response_def
          getRefactor_request_def)
  have h3: "refactorOptions EXTRACT_METHOD
              = Some (getExtractMethodArgs :: (string, string) resolver)"
    by simp
  have h4: "getExtractMethodArgs ?env
              (feedback (validationResult ?env ?doc EXTRACT_METHOD sample_range)) [?vreq]
            = (Inr (Some sample_options),
               [?vreq] @ [ShowInputBox \<lparr>prompt = ''Enter a name for the method'',
                                         value_opt = Some ''extracted''\<rparr>])"
    by (rule sample_resolved)
  have h5: "\<forall>p\<in>set (allProblems (editResult ?env ?doc EXTRACT_METHOD sample_range
                                    sample_options)). severity p \<noteq> ''FATAL''"
    unfolding er by (simp add: allProblems_def sample_response_def)
  have h6: "change (editResult ?env ?doc EXTRACT_METHOD sample_range sample_options) = None"
    unfolding er by (simp add: sample_response_def)
  show ?thesis
    using missing_change_aborts_silently [OF h1 h2 h3 h4 h5 h6, of 0 "[]"]
    by simp
qed

text \<open>
  C6. The edit response holds problems, all of them of severity ERROR or WARNING, and a
  change. The command then shows their messages, each once, joined by a blank line, with
  the single item "Refactor Anyway", as an error message if a problem has severity ERROR
  and as a warning message otherwise. If the user picks the item and the version of the
  document is the one read on entry, the change is handed to the apply step, once; if the
  user does not pick it, the trace ends with the prompt and nothing is applied. (The
  claim speaks of the problems of the response, so the response has at least one: with
  none there is nothing to show and the code shows nothing.)
\<close>

theorem actionable_problems_need_consent:
  assumes "\<not> isClosed doc"
    and "\<forall>p\<in>set (allProblems (validationResult env doc k rng)). severity p \<noteq> ''FATAL''"
    and "refactorOptions k = Some resolver"
    and "resolver env (feedback (validationResult env doc k rng))
           [EditGetRefactoring (getRefactor_request doc k rng True None)] = (Inr (Some opts), t3)"
    and "allProblems (editResult env doc k rng opts) \<noteq> []"
    and "\<forall>p\<in>set (allProblems (editResult env doc k rng opts)).
           severity p = ''ERROR'' \<or> severity p = ''WARNING''"
    and "change (editResult env doc k rng opts) \<noteq> None"
    and "lvl = (if \<exists>p\<in>set (allProblems (editResult env doc k rng opts)). severity p = ''ERROR''
                then ErrorMessage else WarningMessage)"
    and "msg = join ''\<newline>\<newline>''
                 (unique (map message (allProblems (editResult env doc k rng opts))))"
    and "t4 = t3 @ [EditGetRefactoring (getRefactor_request doc k rng False (Some opts)),
                    ShowMessage lvl msg [''Refactor Anyway'']]"
  shows "performRefactor env (Some doc) rng k =
           (if showMessage env lvl msg [''Refactor Anyway''] = Some ''Refactor Anyway''
            then if version doc (length t4) = version doc 0
                 then (Inr (), t4 @ [ApplySourceChange doc (change (editResult env doc k rng opts))])
                 else (Inr (), t4 @ [ShowMessage ErrorMessage REFACTOR_FAILED_DOC_MODIFIED []])
            else (Inr (), t4))
       \<and> applyCalls (snd (performRefactor env (Some doc) rng k)) =
           (if showMessage env lvl msg [''Refactor Anyway''] = Some ''Refactor Anyway''
               \<and> version doc (length t4) = version doc 0
            then [(doc, change (editResult env doc k rng opts))] else [])"
proof -
  let ?er = "editResult env doc k rng opts"
  let ?w = "filter (\<lambda>e. severity e = ''ERROR'' \<or> severity e = ''WARNING'') (allProblems ?er)"
  have w: "?w = allProblems ?er" and nf: "\<forall>p\<in>set (allProblems ?er). severity p \<noteq> ''FATAL''"
    using only_actionable [OF assms(6)] by blast+
  have wne: "?w \<noteq> []" using w assms(5) by simp
  have m: "msg = join ''\<newline>\<newline>'' (unique (map message ?w))"
    using w assms(9) by simp
  have tg: "t4 = t3 @ [EditGetRefactoring (getRefactor_request doc k rng False (Some opts))]
                @ (if ?w = [] then [] else [ShowMessage lvl msg [REFACTOR_ANYWAY]])"
    using wne assms(10) by (simp add: REFACTOR_ANYWAY_def)
  have pr: "performRefactor env (Some doc) rng k =
           (if showMessage env lvl msg [''Refactor Anyway''] = Some ''Refactor Anyway''
            then if version doc (length t4) = version doc 0
                 then (Inr (), t4 @ [ApplySourceChange doc (change ?er)])
                 else (Inr (), t4 @ [ShowMessage ErrorMessage REFACTOR_FAILED_DOC_MODIFIED []])
            else (Inr (), t4))"
    using wne
    by (simp add: performRefactor_gate [OF assms(1-4) nf assms(7) refl assms(8) m tg]
          REFACTOR_ANYWAY_def)
  from resolved_trace [OF assms(3,4)] obtain box
    where t3: "t3 = [EditGetRefactoring (getRefactor_request doc k rng True None),
                     ShowInputBox box]"
    by auto
  have t4: "applyCalls t4 = []" unfolding assms(10) t3 by simp
  have ac: "applyCalls (snd (performRefactor env (Some doc) rng k)) =
           (if showMessage env lvl msg [''Refactor Anyway''] = Some ''Refactor Anyway''
               \<and> version doc (length t4) = version doc 0
            then [(doc, change ?er)] else [])"
    unfolding pr using t4 by (simp add: applyCalls_append)
  from pr ac show ?thesis by blast
qed

theorem actionable_problems_need_consent_witness:
  "performRefactor
     (sample_env (sample_response [] [] [] None)
        (sample_response [\<lparr>severity = ''WARNING'', message = ''w1''\<rparr>]
           [\<lparr>severity = ''ERROR'', message = ''e1''\<rparr>]
           [\<lparr>severity = ''WARNING'', message = ''w1''\<rparr>] (Some ''edit''))
        (Some ''computeTotal'') (Some ''Refactor Anyway''))
     (Some (sample_document steady_version)) sample_range EXTRACT_METHOD =
   (Inr (),
    [EditGetRefactoring
       (getRefactor_request (sample_document steady_version) EXTRACT_METHOD sample_range True None),
     ShowInputBox \<lparr>prompt = ''Enter a name for the method'', value_opt = Some ''extracted''\<rparr>,
     EditGetRefactoring
       (getRefactor_request (sample_document steady_version) EXTRACT_METHOD sample_range False
          (Some sample_options)),
     ShowMessage ErrorMessage ''w1\<newline>\<newline>e1'' [''Refactor Anyway''],
     ApplySourceChange (sample_document steady_version) (Some ''edit'')])
   \<and> performRefactor
     (sample_env (sample_response [] [] [] None)
        (sample_response [\<lparr>severity = ''WARNING'', message = ''w1''\<rparr>] []
           [\<lparr>severity = ''WARNING'', message = ''w2''\<rparr>] (Some ''edit''))
        (Some ''computeTotal'') None)
     (Some (sample_document steady_version)) sample_range EXTRACT_METHOD =
   (Inr (),
    [EditGetRefactoring
       (getRefactor_request (sample_document steady_version) EXTRACT_METHOD sample_range True None),
     ShowInputBox \<lparr>prompt = ''Enter a name for the method'', value_opt = Some ''extracted''\<rparr>,
     EditGetRefactoring
       (getRefactor_request (sample_document steady_version) EXTRACT_METHOD sample_range False
          (Some sample_options)),
     ShowMessage WarningMessage ''w1\<newline>\<newline>w2'' [''Refactor Anyway'']])"
proof -
  let ?doc = "sample_document steady_version"
  let ?vreq = "EditGetRefactoring
       (getRefactor_request ?doc EXTRACT_METHOD sample_range True None)
       :: (string, string) event"
  let ?box = "ShowInputBox \<lparr>prompt = ''Enter a name for the method'',
                            value_opt = Some ''extracted''\<rparr> :: (string, string) event"
  have h1: "\<not> isClosed ?doc" by (simp add: sample_document_def)
  have h3: "refactorOptions EXTRACT_METHOD
              = Some (getExtractMethodArgs :: (string, string) resolver)"
    by simp
  have v: "version ?doc n = 1" for n
    by (simp add: sample_document_def steady_version_def)
  {
    let ?e = "sample_response [\<lparr>severity = ''WARNING'', message = ''w1''\<rparr>]
           [\<lparr>severity = ''ERROR'', message = ''e1''\<rparr>]
           [\<lparr>severity = ''WARNING'', message = ''w1''\<rparr>] (Some ''edit'')"
    let ?env = "sample_env (sample_response [] [] [] None) ?e
                  (Some ''computeTotal'') (Some ''Refactor Anyway'')"
    have er: "editResult ?env ?doc EXTRACT_METHOD sample_range sample_options = ?e"
      by (simp add: editResult_def sample_env_def getRefactor_request_def)
    have h2: "\<forall>p\<in>set (allProblems (validationResult ?env ?doc EXTRACT_METHOD sample_range)).
                severity p \<noteq> ''FATAL''"
      by (simp add: allProblems_def validationResult_def sample_env_def sample_response_def
            getRefactor_request_def)
    have h4: "getExtractMethodArgs ?env
                (feedback (validationResult ?env ?doc EXTRACT_METHOD sample_range)) [?vreq]
              = (Inr (Some sample_options), [?vreq] @ [?box])"
      by (rule sample_resolved)
    have ap: "allProblems (editResult ?env ?doc EXTRACT_METHOD sample_range sample_options)
        = [\<lparr>severity = ''WARNING'', message = ''w1''\<rparr>, \<lparr>severity = ''ERROR'', message = ''e1''\<rparr>,
           \<lparr>severity = ''WARNING'', message = ''w1''\<rparr>]"
      unfolding er by (simp add: allProblems_def sample_response_def)
    have h5: "allProblems (editResult ?env ?doc EXTRACT_METHOD sample_range sample_options) \<noteq> []"
      unfolding ap by simp
    have h6: "\<forall>p\<in>set (allProblems (editResult ?env ?doc EXTRACT_METHOD sample_range
                                      sample_options)).
                severity p = ''ERROR'' \<or> severity p = ''WARNING''"
      unfolding ap by simp
    have h7: "change (editResult ?env ?doc EXTRACT_METHOD sample_range sample_options) \<noteq> None"
      unfolding er by (simp add: sample_response_def)
    have ch: "change (editResult ?env ?doc EXTRACT_METHOD sample_range sample_options)
                = Some ''edit''"
      unfolding er by (simp add: sample_response_def)
    have pk: "showMessage ?env l m c = Some ''Refactor Anyway''" for l m c
      by (simp add: sample_env_def)
    have "performRefactor ?env (Some ?doc) sample_range EXTRACT_METHOD =
       (Inr (), [?vreq, ?box,
         EditGetRefactoring
           (getRefactor_request ?doc EXTRACT_METHOD sample_range False (Some sample_options)),
         ShowMessage ErrorMessage ''w1\<newline>\<newline>e1'' [''Refactor Anyway''],
         ApplySourceChange ?doc (Some ''edit'')])"
      using actionable_problems_need_consent [OF h1 h2 h3 h4 h5 h6 h7 refl refl refl]
      unfolding ap ch pk v by simp
  }
  note a = this
  {
    let ?e = "sample_response [\<lparr>severity = ''WARNING'', message = ''w1''\<rparr>] []
           [\<lparr>severity = ''WARNING'', message = ''w2''\<rparr>] (Some ''edit'')"
    let ?env = "sample_env (sample_response [] [] [] None) ?e (Some ''computeTotal'') None"
    have er: "editResult ?env ?doc EXTRACT_METHOD sample_range sample_options = ?e"
      by (simp add: editResult_def sample_env_def getRefactor_request_def)
    have h2: "\<forall>p\<in>set (allProblems (validationResult ?env ?doc EXTRACT_METHOD sample_range)).
                severity p \<noteq> ''FATAL''"
      by (simp add: allProblems_def validationResult_def sample_env_def sample_response_def
            getRefactor_request_def)
    have h4: "getExtractMethodArgs ?env
                (feedback (validationResult ?env ?doc EXTRACT_METHOD sample_range)) [?vreq]
              = (Inr (Some sample_options), [?vreq] @ [?box])"
      by (rule sample_resolved)
    have ap: "allProblems (editResult ?env ?doc EXTRACT_METHOD sample_range sample_options)
        = [\<lparr>severity = ''WARNING'', message = ''w1''\<rparr>, \<lparr>severity = ''WARNING'', message = ''w2''\<rparr>]"
      unfolding er by (simp add: allProblems_def sample_response_def)
    have h5: "allProblems (editResult ?env ?doc EXTRACT_METHOD sample_range sample_options) \<noteq> []"
      unfolding ap by simp
    have h6: "\<forall>p\<in>set (allProblems (editResult ?env ?doc EXTRACT_METHOD sample_range
                                      sample_options)).
                severity p = ''ERROR'' \<or> severity p = ''WARNING''"
      unfolding ap by simp
    have h7: "change (editResult ?env ?doc EXTRACT_METHOD sample_range sample_options) \<noteq> None"
      unfolding er by (simp add: sample_response_def)
    have pk: "showMessage ?env l m c = None" for l m c
      by (simp add: sample_env_def)
    have "performRefactor ?env (Some ?doc) sample_range EXTRACT_METHOD =
       (Inr (), [?vreq, ?box,
         EditGetRefactoring
           (getRefactor_request ?doc EXTRACT_METHOD sample_range False (Some sample_options)),
         ShowMessage WarningMessage ''w1\<newline>\<newline>w2'' [''Refactor Anyway'']])"
      using actionable_problems_need_consent [OF h1 h2 h3 h4 h5 h6 h7 refl refl refl]
      unfolding ap pk by simp
  }
  note b = this
  from a b show ?thesis by (rule conjI)
qed

text \<open>
  C7. The final check is the comparison of the document's version with the version read
  on entry; the command reaches it when the edit response holds no FATAL problem and a
  change, and the user has picked "Refactor Anyway" or there was nothing to ask. If the
  versions differ there, the command shows the fixed message and applies nothing, the
  user's consent notwithstanding. The check is the last step: everything before it (both
  requests, the input box, the prompt) has happened, no plain message was shown before,
  and the versions the document had in between play no part in the outcome. When the user
  does not pick the item, \<open>applyEdits\<close> is false and the versions are not compared; that
  case is part of C6.
\<close>

theorem stale_document_blocks_apply:
  assumes "\<not> isClosed doc"
    and "\<forall>p\<in>set (allProblems (validationResult env doc k rng)). severity p \<noteq> ''FATAL''"
    and "refactorOptions k = Some resolver"
    and "resolver env (feedback (validationResult env doc k rng))
           [EditGetRefactoring (getRefactor_request doc k rng True None)] = (Inr (Some opts), t3)"
    and "\<forall>p\<in>set (allProblems (editResult env doc k rng opts)). severity p \<noteq> ''FATAL''"
    and "change (editResult env doc k rng opts) \<noteq> None"
    and "warnings = filter (\<lambda>e. severity e = ''ERROR'' \<or> severity e = ''WARNING'')
                      (allProblems (editResult env doc k rng opts))"
    and "lvl = (if \<exists>p\<in>set (allProblems (editResult env doc k rng opts)). severity p = ''ERROR''
                then ErrorMessage else WarningMessage)"
    and "msg = join ''\<newline>\<newline>'' (unique (map message warnings))"
    and "tg = t3 @ [EditGetRefactoring (getRefactor_request doc k rng False (Some opts))]
                @ (if warnings = [] then [] else [ShowMessage lvl msg [REFACTOR_ANYWAY]])"
    and "warnings = [] \<or> showMessage env lvl msg [REFACTOR_ANYWAY] = Some REFACTOR_ANYWAY"
    and "version doc (length tg) \<noteq> version doc 0"
  shows "performRefactor env (Some doc) rng k =
           (Inr (), tg @ [ShowMessage ErrorMessage
              ''This refactor cannot be applied because the document has changed.'' []])
       \<and> applyCalls (snd (performRefactor env (Some doc) rng k)) = []
       \<and> (\<forall>l m. ShowMessage l m [] \<notin> set tg)
       \<and> (\<forall>v'. v' 0 = version doc 0 \<and> v' (length tg) = version doc (length tg) \<longrightarrow>
              performRefactor env (Some (doc\<lparr>version := v'\<rparr>)) rng k =
                performRefactor env (Some doc) rng k)"
proof -
  have pr: "performRefactor env (Some doc) rng k =
           (Inr (), tg @ [ShowMessage ErrorMessage
              ''This refactor cannot be applied because the document has changed.'' []])"
    using assms(11,12)
    by (simp add: performRefactor_gate [OF assms(1-10)] REFACTOR_FAILED_DOC_MODIFIED_def)
  from resolved_trace [OF assms(3,4)] obtain box
    where t3: "t3 = [EditGetRefactoring (getRefactor_request doc k rng True None),
                     ShowInputBox box]"
    by auto
  have tg: "applyCalls tg = []" "\<forall>l m. ShowMessage l m [] \<notin> set tg"
    unfolding assms(10) t3 by (simp_all add: REFACTOR_ANYWAY_def)
  have ac: "applyCalls (snd (performRefactor env (Some doc) rng k)) = []"
    unfolding pr using tg(1) by (simp add: applyCalls_append)
  have ind: "performRefactor env (Some (doc\<lparr>version := v'\<rparr>)) rng k =
                performRefactor env (Some doc) rng k"
    if v': "v' 0 = version doc 0 \<and> v' (length tg) = version doc (length tg)" for v'
  proof -
    let ?d = "doc\<lparr>version := v'\<rparr>"
    have vr: "validationResult env ?d k rng = validationResult env doc k rng"
      by (simp add: validationResult_def getRefactor_request_version)
    have er: "editResult env ?d k rng opts = editResult env doc k rng opts"
      by (simp add: editResult_def getRefactor_request_version)
    have g1: "\<not> isClosed ?d" using assms(1) by simp
    have g2: "\<forall>p\<in>set (allProblems (validationResult env ?d k rng)). severity p \<noteq> ''FATAL''"
      using assms(2) by (simp add: vr)
    have g4: "resolver env (feedback (validationResult env ?d k rng))
           [EditGetRefactoring (getRefactor_request ?d k rng True None)] = (Inr (Some opts), t3)"
      using assms(4) by (simp add: vr getRefactor_request_version)
    have g5: "\<forall>p\<in>set (allProblems (editResult env ?d k rng opts)). severity p \<noteq> ''FATAL''"
      using assms(5) by (simp add: er)
    have g6: "change (editResult env ?d k rng opts) \<noteq> None"
      using assms(6) by (simp add: er)
    have g7: "warnings = filter (\<lambda>e. severity e = ''ERROR'' \<or> severity e = ''WARNING'')
                      (allProblems (editResult env ?d k rng opts))"
      using assms(7) by (simp add: er)
    have g8: "lvl = (if \<exists>p\<in>set (allProblems (editResult env ?d k rng opts)). severity p = ''ERROR''
                then ErrorMessage else WarningMessage)"
      using assms(8) by (simp add: er)
    have g10: "tg = t3 @ [EditGetRefactoring (getRefactor_request ?d k rng False (Some opts))]
                @ (if warnings = [] then [] else [ShowMessage lvl msg [REFACTOR_ANYWAY]])"
      using assms(10) by (simp add: getRefactor_request_version)
    have "performRefactor env (Some ?d) rng k =
           (Inr (), tg @ [ShowMessage ErrorMessage
              ''This refactor cannot be applied because the document has changed.'' []])"
      using assms(11,12) v'
      by (simp add: performRefactor_gate [OF g1 g2 assms(3) g4 g5 g6 g7 g8 assms(9) g10]
            REFACTOR_FAILED_DOC_MODIFIED_def)
    with pr show ?thesis by simp
  qed
  from pr ac tg(2) ind show ?thesis by blast
qed

theorem stale_document_blocks_apply_witness:
  "performRefactor
     (sample_env (sample_response [] [] [] None)
        (sample_response [\<lparr>severity = ''WARNING'', message = ''w1''\<rparr>] [] [] (Some ''edit''))
        (Some ''computeTotal'') (Some ''Refactor Anyway''))
     (Some (sample_document edited_version)) sample_range EXTRACT_METHOD =
   (Inr (),
    [EditGetRefactoring
       (getRefactor_request (sample_document edited_version) EXTRACT_METHOD
          sample_range True None),
     ShowInputBox \<lparr>prompt = ''Enter a name for the method'', value_opt = Some ''extracted''\<rparr>,
     EditGetRefactoring
       (getRefactor_request (sample_document edited_version) EXTRACT_METHOD
          sample_range False (Some sample_options)),
     ShowMessage WarningMessage ''w1'' [''Refactor Anyway''],
     ShowMessage ErrorMessage
       ''This refactor cannot be applied because the document has changed.'' []])"
proof -
  let ?doc = "sample_document edited_version"
  let ?vreq = "EditGetRefactoring
       (getRefactor_request ?doc EXTRACT_METHOD sample_range True None)
       :: (string, string) event"
  let ?box = "ShowInputBox \<lparr>prompt = ''Enter a name for the method'',
                            value_opt = Some ''extracted''\<rparr> :: (string, string) event"
  let ?e = "sample_response [\<lparr>severity = ''WARNING'', message = ''w1''\<rparr>] [] [] (Some ''edit'')"
  let ?env = "sample_env (sample_response [] [] [] None) ?e
                (Some ''computeTotal'') (Some ''Refactor Anyway'')"
  let ?tg = "[?vreq, ?box,
              EditGetRefactoring
                (getRefactor_request ?doc EXTRACT_METHOD sample_range False (Some sample_options)),
              ShowMessage WarningMessage ''w1'' [''Refactor Anyway'']]"
  have h1: "\<not> isClosed ?doc" by (simp add: sample_document_def)
  have h3: "refactorOptions EXTRACT_METHOD
              = Some (getExtractMethodArgs :: (string, string) resolver)"
    by simp
  have er: "editResult ?env ?doc EXTRACT_METHOD sample_range sample_options = ?e"
    by (simp add: editResult_def sample_env_def getRefactor_request_def)
  have h2: "\<forall>p\<in>set (allProblems (validationResult ?env ?doc EXTRACT_METHOD sample_range)).
              severity p \<noteq> ''FATAL''"
    by (simp add: allProblems_def validationResult_def sample_env_def sample_response_def
          getRefactor_request_def)
  have h4: "getExtractMethodArgs ?env
              (feedback (validationResult ?env ?doc EXTRACT_METHOD sample_range)) [?vreq]
            = (Inr (Some sample_options), [?vreq] @ [?box])"
    by (rule sample_resolved)
  have ap: "allProblems (editResult ?env ?doc EXTRACT_METHOD sample_range sample_options)
      = [\<lparr>severity = ''WARNING'', message = ''w1''\<rparr>]"
    unfolding er by (simp add: allProblems_def sample_response_def)
  have h5: "\<forall>p\<in>set (allProblems (editResult ?env ?doc EXTRACT_METHOD sample_range
                                    sample_options)). severity p \<noteq> ''FATAL''"
    unfolding ap by simp
  have h6: "change (editResult ?env ?doc EXTRACT_METHOD sample_range sample_options) \<noteq> None"
    unfolding er by (simp add: sample_response_def)
  have h7: "[\<lparr>severity = ''WARNING'', message = ''w1''\<rparr>]
              = filter (\<lambda>e. severity e = ''ERROR'' \<or> severity e = ''WARNING'')
                  (allProblems (editResult ?env ?doc EXTRACT_METHOD sample_range sample_options))"
    unfolding ap by simp
  have h8: "WarningMessage = (if \<exists>p\<in>set (allProblems (editResult ?env ?doc EXTRACT_METHOD
                                  sample_range sample_options)). severity p = ''ERROR''
                then ErrorMessage else WarningMessage)"
    unfolding ap by simp
  have h9: "''w1'' = join ''\<newline>\<newline>''
                 (unique (map message [\<lparr>severity = ''WARNING'', message = ''w1''\<rparr>]))"
    by simp
  have h10: "?tg = ([?vreq] @ [?box])
       @ [EditGetRefactoring
            (getRefactor_request ?doc EXTRACT_METHOD sample_range False (Some sample_options))]
       @ (if [\<lparr>severity = ''WARNING'', message = ''w1''\<rparr>] = [] then []
          else [ShowMessage WarningMessage ''w1'' [REFACTOR_ANYWAY]])"
    by (simp add: REFACTOR_ANYWAY_def)
  have h11: "[\<lparr>severity = ''WARNING'', message = ''w1''\<rparr>] = []
       \<or> showMessage ?env WarningMessage ''w1'' [REFACTOR_ANYWAY] = Some REFACTOR_ANYWAY"
    by (simp add: sample_env_def REFACTOR_ANYWAY_def)
  have h12: "version ?doc (length ?tg) \<noteq> version ?doc 0"
    by (simp add: sample_document_def edited_version_def)
  show ?thesis
    using stale_document_blocks_apply [OF h1 h2 h3 h4 h5 h6 h7 h8 h9 h10 h11 h12]
    by simp
qed

text \<open>
  C8. For the feedback \<open>{names: ["extracted"], parameters: [], returnType: "void"}\<close> the
  input box is shown with the value "extracted", and when the user enters "computeTotal"
  the resolver returns \<open>{name: "computeTotal", createGetter: false, extractAll: false,
  parameters: [], returnType: "void"}\<close>. In general the value of the box is the first
  suggested name, and is absent when the names are missing or empty; the parameters and
  the return type of the options are those of the feedback.
\<close>

theorem extract_method_options:
  "(showInputBox env \<lparr>prompt = ''Enter a name for the method'', value_opt = Some ''extracted''\<rparr>
      = Some ''computeTotal'' \<longrightarrow>
    getExtractMethodArgs env
      (Some \<lparr>names = Some [''extracted''], fb_parameters = [], fb_returnType = ''void''\<rparr>) t =
      (Inr (Some \<lparr>createGetter = False, extractAll = False, name = ''computeTotal'',
                   parameters = [], returnType = ''void''\<rparr>),
       t @ [ShowInputBox \<lparr>prompt = ''Enter a name for the method'',
                          value_opt = Some ''extracted''\<rparr>]))
   \<and> (names fb1 = Some (n # ns) \<longrightarrow>
        snd (getExtractMethodArgs env (Some fb1) t) =
          t @ [ShowInputBox \<lparr>prompt = ''Enter a name for the method'', value_opt = Some n\<rparr>])
   \<and> (names fb0 = None \<or> names fb0 = Some [] \<longrightarrow>
        snd (getExtractMethodArgs env (Some fb0) t) =
          t @ [ShowInputBox \<lparr>prompt = ''Enter a name for the method'', value_opt = None\<rparr>])
   \<and> (showInputBox env
          \<lparr>prompt = ''Enter a name for the method'',
           value_opt = (case names fb of Some (n # ns) \<Rightarrow> Some n | _ \<Rightarrow> None)\<rparr> = Some nm
        \<and> nm \<noteq> [] \<longrightarrow>
        fst (getExtractMethodArgs env (Some fb) t) =
          Inr (Some \<lparr>createGetter = False, extractAll = False, name = nm,
                      parameters = fb_parameters fb, returnType = fb_returnType fb\<rparr>))"
  by (auto simp: getExtractMethodArgs_def Let_def split: option.splits list.splits)

theorem extract_method_options_witness:
  "getExtractMethodArgs
     (sample_env (sample_response [] [] [] None) (sample_response [] [] [] None)
        (Some ''computeTotal'') None)
     (Some sample_feedback) [] =
     (Inr (Some sample_options),
      [ShowInputBox \<lparr>prompt = ''Enter a name for the method'',
                     value_opt = Some ''extracted''\<rparr>])
   \<and> snd (getExtractMethodArgs
        (sample_env (sample_response [] [] [] None) (sample_response [] [] [] None)
           (Some ''computeTotal'') None)
        (Some \<lparr>names = Some [], fb_parameters = [''x''], fb_returnType = ''int''\<rparr>) []) =
      [ShowInputBox \<lparr>prompt = ''Enter a name for the method'', value_opt = None\<rparr>]
   \<and> fst (getExtractMethodArgs
        (sample_env (sample_response [] [] [] None) (sample_response [] [] [] None)
           (Some ''computeTotal'') None)
        (Some \<lparr>names = Some [], fb_parameters = [''x''], fb_returnType = ''int''\<rparr>) []) =
      Inr (Some \<lparr>createGetter = False, extractAll = False, name = ''computeTotal'',
                  parameters = [''x''], returnType = ''int''\<rparr>)"
  using extract_method_options
    [of "sample_env (sample_response [] [] [] None) (sample_response [] [] [] None)
           (Some ''computeTotal'') None"
        "[]" sample_feedback "''extracted''" "[]"
        "\<lparr>names = Some [], fb_parameters = [''x''], fb_returnType = ''int''\<rparr>"
        "\<lparr>names = Some [], fb_parameters = [''x''], fb_returnType = ''int''\<rparr>"
        "''computeTotal''"]
  by (simp add: sample_env_def sample_feedback_def sample_options_def)

text \<open>
  C9. When the user dismisses the input box of Extract Method, the resolver returns no
  options, and the trace of the command holds the validation request and the input box
  and nothing else: no edit request, no apply call, no message.
\<close>

theorem cancelled_name_prompt_aborts:
  assumes "\<not> isClosed doc"
    and "\<forall>p\<in>set (allProblems (validationResult env doc EXTRACT_METHOD rng)).
           severity p \<noteq> ''FATAL''"
    and "feedback (validationResult env doc EXTRACT_METHOD rng) = Some fb"
    and "box = \<lparr>prompt = ''Enter a name for the method'',
                value_opt = (case names fb of Some (n # ns) \<Rightarrow> Some n | _ \<Rightarrow> None)\<rparr>"
    and "showInputBox env box = None"
  shows "getExtractMethodArgs env (Some fb) t = (Inr None, t @ [ShowInputBox box])
       \<and> performRefactor env (Some doc) rng EXTRACT_METHOD =
           (Inr (), [EditGetRefactoring (getRefactor_request doc EXTRACT_METHOD rng True None),
                     ShowInputBox box])"
proof -
  have r: "getExtractMethodArgs env (Some fb) t = (Inr None, t @ [ShowInputBox box])" for t
    using assms(5) unfolding assms(4)
    by (auto simp: getExtractMethodArgs_def Let_def split: option.splits list.splits)
  show ?thesis
    using assms(3) r by (simp add: performRefactor_validated [OF assms(1,2)])
qed

theorem cancelled_name_prompt_aborts_witness:
  "getExtractMethodArgs
     (sample_env (sample_response [] [] [] None) (sample_response [] [] [] (Some ''edit''))
        None (Some REFACTOR_ANYWAY))
     (Some sample_feedback) [] =
     (Inr None, [ShowInputBox \<lparr>prompt = ''Enter a name for the method'',
                               value_opt = Some ''extracted''\<rparr>])
   \<and> performRefactor
       (sample_env (sample_response [] [] [] None) (sample_response [] [] [] (Some ''edit''))
          None (Some REFACTOR_ANYWAY))
       (Some (sample_document steady_version)) sample_range EXTRACT_METHOD =
     (Inr (), [EditGetRefactoring
                 (getRefactor_request (sample_document steady_version) EXTRACT_METHOD sample_range
                    True None),
               ShowInputBox \<lparr>prompt = ''Enter a name for the method'',
                              value_opt = Some ''extracted''\<rparr>])"
proof -
  let ?env = "sample_env (sample_response [] [] [] None)
                (sample_response [] [] [] (Some ''edit'')) None (Some REFACTOR_ANYWAY)"
  let ?doc = "sample_document steady_version"
  let ?box = "\<lparr>prompt = ''Enter a name for the method'', value_opt = Some ''extracted''\<rparr>"
  have h1: "\<not> isClosed ?doc" by (simp add: sample_document_def)
  have h2: "\<forall>p\<in>set (allProblems (validationResult ?env ?doc EXTRACT_METHOD sample_range)).
              severity p \<noteq> ''FATAL''"
    by (simp add: allProblems_def validationResult_def sample_env_def sample_response_def
          getRefactor_request_def)
  have h3: "feedback (validationResult ?env ?doc EXTRACT_METHOD sample_range)
              = Some sample_feedback"
    by (simp add: validationResult_def sample_env_def sample_response_def
          getRefactor_request_def)
  have h4: "?box = \<lparr>prompt = ''Enter a name for the method'',
                value_opt = (case names sample_feedback of Some (n # ns) \<Rightarrow> Some n
                             | _ \<Rightarrow> None)\<rparr>"
    by (simp add: sample_feedback_def)
  have h5: "showInputBox ?env ?box = None" by (simp add: sample_env_def)
  show ?thesis
    using cancelled_name_prompt_aborts [OF h1 h2 h3 h4 h5, of "[]"] by simp
qed

text \<open>
  C10. An empty string entered in the input box is treated as a dismissal: the resolver
  returns no options and the command ends as it does when the box is dismissed, with the
  same trace. Hence no invocation, whatever the inputs, sends a request whose options
  carry an empty name.
\<close>

theorem empty_name_is_cancellation:
  "(\<not> isClosed doc
      \<and> (\<forall>p\<in>set (allProblems (validationResult env doc EXTRACT_METHOD rng)).
            severity p \<noteq> ''FATAL'')
      \<and> feedback (validationResult env doc EXTRACT_METHOD rng) = Some fb
      \<and> box = \<lparr>prompt = ''Enter a name for the method'',
                value_opt = (case names fb of Some (n # ns) \<Rightarrow> Some n | _ \<Rightarrow> None)\<rparr>
      \<and> showInputBox env box = Some [] \<longrightarrow>
    getExtractMethodArgs env (Some fb) t = (Inr None, t @ [ShowInputBox box])
      \<and> performRefactor env (Some doc) rng EXTRACT_METHOD =
           (Inr (), [EditGetRefactoring (getRefactor_request doc EXTRACT_METHOD rng True None),
                     ShowInputBox box])
      \<and> performRefactor env (Some doc) rng EXTRACT_METHOD =
           performRefactor (env\<lparr>showInputBox := (\<lambda>b. None)\<rparr>) (Some doc) rng EXTRACT_METHOD)
   \<and> (performRefactor env' document rng' k = (res, tr)
        \<and> EditGetRefactoring r \<in> set tr \<and> options r = Some opts \<longrightarrow> name opts \<noteq> [])"
proof (intro conjI impI)
  assume a: "\<not> isClosed doc
      \<and> (\<forall>p\<in>set (allProblems (validationResult env doc EXTRACT_METHOD rng)).
            severity p \<noteq> ''FATAL'')
      \<and> feedback (validationResult env doc EXTRACT_METHOD rng) = Some fb
      \<and> box = \<lparr>prompt = ''Enter a name for the method'',
                value_opt = (case names fb of Some (n # ns) \<Rightarrow> Some n | _ \<Rightarrow> None)\<rparr>
      \<and> showInputBox env box = Some []"
  then have op: "\<not> isClosed doc"
    and valid: "\<forall>p\<in>set (allProblems (validationResult env doc EXTRACT_METHOD rng)).
            severity p \<noteq> ''FATAL''"
    and fb: "feedback (validationResult env doc EXTRACT_METHOD rng) = Some fb"
    and box: "box = \<lparr>prompt = ''Enter a name for the method'',
                value_opt = (case names fb of Some (n # ns) \<Rightarrow> Some n | _ \<Rightarrow> None)\<rparr>"
    and ans: "showInputBox env box = Some []"
    by blast+
  let ?env0 = "env\<lparr>showInputBox := (\<lambda>b. None)\<rparr>"
  have r: "getExtractMethodArgs env (Some fb) t = (Inr None, t @ [ShowInputBox box])" for t
    using ans unfolding box
    by (auto simp: getExtractMethodArgs_def Let_def split: option.splits list.splits)
  have r0: "getExtractMethodArgs ?env0 (Some fb) t = (Inr None, t @ [ShowInputBox box])" for t
    unfolding box
    by (auto simp: getExtractMethodArgs_def Let_def split: option.splits list.splits)
  have vr0: "validationResult ?env0 doc EXTRACT_METHOD rng
               = validationResult env doc EXTRACT_METHOD rng"
    by (simp add: validationResult_def)
  show "getExtractMethodArgs env (Some fb) t = (Inr None, t @ [ShowInputBox box])"
    by (rule r)
  show p1: "performRefactor env (Some doc) rng EXTRACT_METHOD =
           (Inr (), [EditGetRefactoring (getRefactor_request doc EXTRACT_METHOD rng True None),
                     ShowInputBox box])"
    using fb r by (simp add: performRefactor_validated [OF op valid])
  have valid0: "\<forall>p\<in>set (allProblems (validationResult ?env0 doc EXTRACT_METHOD rng)).
            severity p \<noteq> ''FATAL''"
    using valid by (simp add: vr0)
  have "performRefactor ?env0 (Some doc) rng EXTRACT_METHOD =
           (Inr (), [EditGetRefactoring (getRefactor_request doc EXTRACT_METHOD rng True None),
                     ShowInputBox box])"
    using fb r0 by (simp add: performRefactor_validated [OF op valid0] vr0)
  with p1 show "performRefactor env (Some doc) rng EXTRACT_METHOD =
           performRefactor ?env0 (Some doc) rng EXTRACT_METHOD"
    by simp
next
  assume "performRefactor env' document rng' k = (res, tr)
        \<and> EditGetRefactoring r \<in> set tr \<and> options r = Some opts"
  then show "name opts \<noteq> []"
    using performRefactor_requests by blast
qed

theorem empty_name_is_cancellation_witness:
  "getExtractMethodArgs
     (sample_env (sample_response [] [] [] None) (sample_response [] [] [] (Some ''edit''))
        (Some []) (Some REFACTOR_ANYWAY))
     (Some sample_feedback) [] =
     (Inr None, [ShowInputBox \<lparr>prompt = ''Enter a name for the method'',
                               value_opt = Some ''extracted''\<rparr>])
   \<and> performRefactor
       (sample_env (sample_response [] [] [] None) (sample_response [] [] [] (Some ''edit''))
          (Some []) (Some REFACTOR_ANYWAY))
       (Some (sample_document steady_version)) sample_range EXTRACT_METHOD =
     (Inr (), [EditGetRefactoring
                 (getRefactor_request (sample_document steady_version) EXTRACT_METHOD sample_range
                    True None),
               ShowInputBox \<lparr>prompt = ''Enter a name for the method'',
                              value_opt = Some ''extracted''\<rparr>])
   \<and> name sample_options \<noteq> []"
proof -
  let ?env = "sample_env (sample_response [] [] [] None)
                (sample_response [] [] [] (Some ''edit'')) (Some []) (Some REFACTOR_ANYWAY)"
  let ?env' = "sample_env (sample_response [] [] [] None)
                (sample_response [] [] [] (Some ''edit'')) (Some ''computeTotal'') None"
  let ?doc = "sample_document steady_version"
  let ?box = "\<lparr>prompt = ''Enter a name for the method'', value_opt = Some ''extracted''\<rparr>"
  let ?ereq = "getRefactor_request ?doc EXTRACT_METHOD sample_range False (Some sample_options)"
  let ?tr = "[EditGetRefactoring
               (getRefactor_request ?doc EXTRACT_METHOD sample_range True None),
             ShowInputBox ?box, EditGetRefactoring ?ereq,
             ApplySourceChange ?doc (Some ''edit'')]"
  have h1: "\<not> isClosed ?doc" by (simp add: sample_document_def)
  have h2: "\<forall>p\<in>set (allProblems (validationResult ?env ?doc EXTRACT_METHOD sample_range)).
              severity p \<noteq> ''FATAL''"
    by (simp add: allProblems_def validationResult_def sample_env_def sample_response_def
          getRefactor_request_def)
  have h3: "feedback (validationResult ?env ?doc EXTRACT_METHOD sample_range)
              = Some sample_feedback"
    by (simp add: validationResult_def sample_env_def sample_response_def
          getRefactor_request_def)
  have h4: "?box = \<lparr>prompt = ''Enter a name for the method'',
                value_opt = (case names sample_feedback of Some (n # ns) \<Rightarrow> Some n
                             | _ \<Rightarrow> None)\<rparr>"
    by (simp add: sample_feedback_def)
  have h5: "showInputBox ?env ?box = Some []" by (simp add: sample_env_def)
  have h6: "performRefactor ?env' (Some ?doc) sample_range EXTRACT_METHOD = (Inr (), ?tr)"
    by (rule sample_run)
  have h7: "EditGetRefactoring ?ereq \<in> set ?tr" by simp
  have h8: "options ?ereq = Some sample_options" by (simp add: getRefactor_request_def)
  note inst = empty_name_is_cancellation
      [of ?doc ?env sample_range sample_feedback ?box "[]" ?env' "Some ?doc" sample_range
          EXTRACT_METHOD "Inr ()" ?tr ?ereq sample_options]
  from inst h1 h2 h3 h4 h5
  have p1: "getExtractMethodArgs ?env (Some sample_feedback) [] = (Inr None, [] @ [ShowInputBox ?box])"
    and p2: "performRefactor ?env (Some ?doc) sample_range EXTRACT_METHOD =
       (Inr (), [EditGetRefactoring
                   (getRefactor_request ?doc EXTRACT_METHOD sample_range True None),
                 ShowInputBox ?box])"
    by blast+
  from inst h6 h7 h8 have p3: "name sample_options \<noteq> []"
    by blast
  from p1 p2 p3 show ?thesis by simp
qed

end
